theory Spec2Isabelle
  imports Complex_Main "HOL-Library.Sublist"
begin

section \<open>Data model of the secure exam environment\<close>

text \<open>
  The component \<open>SecureExamEnvironment\<close> is a React function component. Its state
  hooks, its refs, the part of the browser it reads and writes, and the side effects that
  leave the component (calls of the props, alerts, console output, calls on media tracks)
  are gathered in one record, \<open>world\<close>, that every operation takes and returns.
\<close>

datatype step = Agreement | Setup | Verification | Exam

datatype severity = Warning | Critical

record SecurityViolation =
  type :: string
  timestamp :: nat
  severity :: severity
  description :: string

record SystemChecks =
  camera :: bool
  microphone :: bool
  fullscreen :: bool
  networkStable :: bool
  batteryLevel :: bool
  noOtherApps :: bool

text \<open>A media stream is known by its tracks; a track by a number.\<close>

datatype MediaStream = MediaStream (getTracks: "nat list")

record KeyboardEvent =
  key :: string
  ctrlKey :: bool
  shiftKey :: bool
  altKey :: bool

text \<open>What the component does to the outside, in the order it does it.\<close>

datatype effect =
    Alert string
  | ConsoleError string
  | ConsoleLog string
  | OnSecurityViolation string severity
  | OnExitSecure
  | OnStartExam
  | TrackStop nat
  | ExitFullscreen
  | ClearInterval nat
  | ClearTimeout nat
  | HeartbeatFetch
  | PreventDefault
  | StopPropagation

text \<open>
  Event listeners. A listener is the triple the DOM compares (target, event type, capture
  flag) and the function registered. The functions are created anew each time an effect
  runs, so a function is identified by the handler it is and the number of the effect run
  that created it.
\<close>

datatype target = Document | Window | BatteryManager

datatype event_type =
    Fullscreenchange | Visibilitychange | Blur | Keydown | Contextmenu | Mouseleave
  | Online | Offline | Chargingchange | Levelchange

datatype handler =
    HandleFullscreenChange | HandleVisibilityChange | HandleBlur | HandleKeyDown
  | HandleContextMenu | HandleMouseLeave | HandleOnline | HandleOffline
  | UpdateBatteryStatus

record listener =
  l_target :: target
  l_type :: event_type
  l_capture :: bool
  l_handler :: handler
  l_run :: nat

record world =
  \<comment> \<open>state hooks\<close>
  currentStep :: step
  isSecureMode :: bool
  cameraStream :: "MediaStream option"
  screenStream :: "MediaStream option"
  violations :: "SecurityViolation list"
  systemChecks :: SystemChecks
  examStartTime :: "nat option"
  isLoading :: bool
  agreementAccepted :: bool
  \<comment> \<open>refs\<close>
  violationTimeoutRef :: "nat option"
  heartbeatRef :: "nat option"
  \<comment> \<open>the browser\<close>
  fullscreenElement :: bool
  exitFullscreenSupported :: bool
  docHidden :: bool
  onLine :: bool
  getBatterySupported :: bool
  batteryCharging :: bool
  batteryLevelValue :: rat
  clock :: nat
  listeners :: "listener list"
  intervals :: "nat list"
  nextId :: nat
  \<comment> \<open>what React remembers of the last run of the monitoring effects\<close>
  depIsSecureMode :: bool
  securityCleanup :: "nat option"
  networkCleanup :: "nat option"
  \<comment> \<open>the trace of side effects\<close>
  effects :: "effect list"

text \<open>
  A function defined in the component body sees the state values of the render that
  created it. Of the functions modelled here only \<open>cleanupSecureMode\<close> reads state
  through its closure (\<open>cameraStream\<close> and \<open>screenStream\<close>); the setters and the refs
  always act on the current state.
\<close>

record closure =
  c_cameraStream :: "MediaStream option"
  c_screenStream :: "MediaStream option"

definition renderClosure :: "world \<Rightarrow> closure" where
  "renderClosure s = \<lparr> c_cameraStream = cameraStream s, c_screenStream = screenStream s \<rparr>"

text \<open>
  \<open>addViolation\<close> is memoised by \<open>useCallback\<close> on the prop \<open>onSecurityViolation\<close>
  only. The props are taken to keep their identity for the life of the component, so
  \<open>addViolation\<close>, and with it the \<open>handleSecurityTermination\<close> and
  \<open>cleanupSecureMode\<close> it calls, are those of the first render, where both streams are
  \<open>null\<close>. The unmount effect has an empty dependency list and holds the first render's
  \<open>cleanupSecureMode\<close> too.
\<close>

definition firstRender :: closure where
  "firstRender = \<lparr> c_cameraStream = None, c_screenStream = None \<rparr>"

definition initialChecks :: SystemChecks where
  "initialChecks = \<lparr> camera = False, microphone = False, fullscreen = False,
     networkStable = False, batteryLevel = False, noOtherApps = False \<rparr>"

subsection \<open>Numbers of the battery\<close>

text \<open>
  \<open>battery.level\<close> and the product \<open>battery.level * 100\<close> are IEEE 754 binary64
  numbers. A finite double is modelled by the rational number it denotes, and
  \<open>toDouble\<close> rounds a rational to the nearest double, to the even mantissa at a tie:
  with \<open>l\<close> the binary exponent of the argument, the mantissa is the argument divided by
  \<open>2 ^ (l - 52)\<close> (by \<open>2 ^ (-1074)\<close> in the subnormal range), rounded to an integer.
  Results beyond the largest finite double do not occur for a battery level, which lies
  between 0 and 1, and are not modelled.
\<close>

function bitLength :: "int \<Rightarrow> nat" where
  "bitLength n = (if n \<le> 0 then 0 else Suc (bitLength (n div 2)))"
  by pat_completeness auto
termination
  by (relation "measure nat") auto

definition pow2 :: "int \<Rightarrow> rat" where
  "pow2 k = (if 0 \<le> k then 2 ^ nat k else 1 / 2 ^ nat (- k))"

definition roundHalfEven :: "rat \<Rightarrow> int" where
  "roundHalfEven r =
     (let f = \<lfloor>r\<rfloor>; d = r - of_int f
      in if d < 1 / 2 then f else if 1 / 2 < d then f + 1 else if even f then f else f + 1)"

definition toDouble :: "rat \<Rightarrow> rat" where
  "toDouble x =
     (if x = 0 then 0
      else
        (let a = \<bar>x\<bar>;
             k = int (bitLength (fst (quotient_of a))) - int (bitLength (snd (quotient_of a)));
             l = (if pow2 k \<le> a then k else k - 1);
             e = max (l - 52) (- 1074)
         in sgn x * of_int (roundHalfEven (a / pow2 e)) * pow2 e))"

text \<open>
  The component as mounted: the initial values of the hooks, no listener, no timer. The
  browser's side (connectivity, battery, whether the optional APIs exist) is a parameter;
  the battery reports the double nearest to the level given.
\<close>

definition mount :: "bool \<Rightarrow> bool \<Rightarrow> bool \<Rightarrow> bool \<Rightarrow> rat \<Rightarrow> world" where
  "mount online exitFs getBat charging level =
     \<lparr> currentStep = Agreement, isSecureMode = False, cameraStream = None,
       screenStream = None, violations = [], systemChecks = initialChecks,
       examStartTime = None, isLoading = False, agreementAccepted = False,
       violationTimeoutRef = None, heartbeatRef = None,
       fullscreenElement = False, exitFullscreenSupported = exitFs, docHidden = False,
       onLine = online, getBatterySupported = getBat, batteryCharging = charging,
       batteryLevelValue = toDouble level, clock = 0, listeners = [], intervals = [], nextId = 1,
       depIsSecureMode = False, securityCleanup = None, networkCleanup = None,
       effects = [] \<rparr>"

section \<open>Operations\<close>

definition emit :: "effect \<Rightarrow> world \<Rightarrow> world" where
  "emit e s = s\<lparr> effects := effects s @ [e] \<rparr>"

text \<open>A timer id is tested for truthiness: \<open>null\<close> and \<open>0\<close> are falsy.\<close>

fun truthy :: "nat option \<Rightarrow> bool" where
  "truthy None = False"
| "truthy (Some i) = (i \<noteq> 0)"

definition clearInterval :: "nat \<Rightarrow> world \<Rightarrow> world" where
  "clearInterval i s = emit (ClearInterval i) (s\<lparr> intervals := removeAll i (intervals s) \<rparr>)"

text \<open>\<open>stream.getTracks().forEach((track) => track.stop())\<close>\<close>

definition stopTracks :: "MediaStream \<Rightarrow> world \<Rightarrow> world" where
  "stopTracks st s = s\<lparr> effects := effects s @ map TrackStop (getTracks st) \<rparr>"

text \<open>
  \<open>cleanupSecureMode\<close>. The call of \<open>document.exitFullscreen()\<close> is a request: the
  browser leaves fullscreen later and says so with a \<open>fullscreenchange\<close> event.
\<close>

definition cleanupSecureMode :: "closure \<Rightarrow> world \<Rightarrow> world" where
  "cleanupSecureMode c s =
     (let s1 = (case c_cameraStream c of
                  Some st \<Rightarrow> (stopTracks st s)\<lparr> cameraStream := None \<rparr>
                | None \<Rightarrow> s);
          s2 = (case c_screenStream c of
                  Some st \<Rightarrow> (stopTracks st s1)\<lparr> screenStream := None \<rparr>
                | None \<Rightarrow> s1);
          s3 = (if exitFullscreenSupported s2 \<and> fullscreenElement s2
                then emit ExitFullscreen s2 else s2);
          s4 = (if truthy (heartbeatRef s3)
                then clearInterval (the (heartbeatRef s3)) s3 else s3)
      in s4\<lparr> isSecureMode := False \<rparr>)"

definition terminationMessage :: "string \<Rightarrow> string" where
  "terminationMessage reason =
     ''Security violation detected: '' @ reason @ [CHR 0x0A] @ ''Exam will be terminated.''"

definition handleSecurityTermination :: "closure \<Rightarrow> string \<Rightarrow> world \<Rightarrow> world" where
  "handleSecurityTermination c reason s =
     (let s1 = (if truthy (violationTimeoutRef s)
                then emit (ClearTimeout (the (violationTimeoutRef s))) s else s);
          s2 = emit (Alert (terminationMessage reason)) s1;
          s3 = cleanupSecureMode c s2
      in emit OnExitSecure s3)"

text \<open>
  \<open>addViolation\<close>; the closure is the one of the render that created the memoised
  callback.
\<close>

definition addViolation :: "closure \<Rightarrow> string \<Rightarrow> severity \<Rightarrow> string \<Rightarrow> world \<Rightarrow> world" where
  "addViolation c ty sev desc s =
     (let violation = \<lparr> type = ty, timestamp = clock s, severity = sev, description = desc \<rparr>;
          s1 = s\<lparr> violations := violations s @ [violation] \<rparr>;
          s2 = emit (OnSecurityViolation desc sev) s1
      in if sev = Critical then handleSecurityTermination c desc s2 else s2)"

subsection \<open>Acquisition\<close>

text \<open>
  The answers of the browser to the three requests of the setup are its input. An
  \<open>async\<close> function returns a promise, which resolves with a value or rejects.
\<close>

datatype fullscreen_api = RequestFullscreen | WebkitRequestFullscreen | MsRequestFullscreen | NoFullscreenApi

record SetupEnv =
  getUserMedia :: "MediaStream option"
  cameraRefCurrent :: bool
  playResolves :: bool
  fullscreenApi :: fullscreen_api
  fullscreenResolves :: bool
  getDisplayMedia :: "MediaStream option"

datatype 'a promise = Resolved 'a world | Rejected world

definition cameraDenied :: "closure \<Rightarrow> world \<Rightarrow> bool promise" where
  "cameraDenied c s =
     Resolved False
       (addViolation c ''camera-denied'' Critical ''Camera access denied or unavailable''
          (emit (ConsoleError ''Camera setup failed:'') s))"

definition setupCamera :: "closure \<Rightarrow> SetupEnv \<Rightarrow> world \<Rightarrow> bool promise" where
  "setupCamera c env s =
     (case getUserMedia env of
        None \<Rightarrow> cameraDenied c s
      | Some stream \<Rightarrow>
          (let s1 = s\<lparr> cameraStream := Some stream \<rparr>
           in if cameraRefCurrent env \<and> \<not> playResolves env then cameraDenied c s1
              else Resolved True
                     (s1\<lparr> systemChecks := (systemChecks s1)\<lparr> camera := True, microphone := True \<rparr> \<rparr>)))"

definition setupScreenShare :: "closure \<Rightarrow> SetupEnv \<Rightarrow> world \<Rightarrow> bool promise" where
  "setupScreenShare c env s =
     (case getDisplayMedia env of
        Some stream \<Rightarrow> Resolved True (s\<lparr> screenStream := Some stream \<rparr>)
      | None \<Rightarrow>
          Resolved False
            (addViolation c ''screen-denied'' Critical ''Screen sharing denied''
               (emit (ConsoleError ''Screen share failed:'') s)))"

definition enterFullscreen :: "closure \<Rightarrow> SetupEnv \<Rightarrow> world \<Rightarrow> bool promise" where
  "enterFullscreen c env s =
     (if fullscreenApi env \<noteq> NoFullscreenApi \<and> \<not> fullscreenResolves env
      then Resolved False
             (addViolation c ''fullscreen-denied'' Critical ''Fullscreen mode denied''
                (emit (ConsoleError ''Fullscreen failed:'') s))
      else (let s1 = (if fullscreenApi env \<noteq> NoFullscreenApi
                      then s\<lparr> fullscreenElement := True \<rparr> else s)
            in Resolved True (s1\<lparr> systemChecks := (systemChecks s1)\<lparr> fullscreen := True \<rparr> \<rparr>)))"

subsection \<open>Setup and start of the exam\<close>

text \<open>The \<open>catch\<close> and \<open>finally\<close> blocks of \<open>startSecureSetup\<close>.\<close>

definition setupFailed :: "closure \<Rightarrow> world \<Rightarrow> world" where
  "setupFailed c s =
     (let s1 = emit (ConsoleError ''Secure setup failed:'') s;
          s2 = cleanupSecureMode c s1;
          s3 = emit (Alert ''Failed to setup secure environment. Please try again.'') s2
      in s3\<lparr> currentStep := Agreement \<rparr>)"

definition setupFinally :: "world \<Rightarrow> world" where
  "setupFinally s = s\<lparr> isLoading := False \<rparr>"

text \<open>Step 3 and step 4 of the setup, after camera and fullscreen.\<close>

definition screenShareStep :: "SetupEnv \<Rightarrow> world \<Rightarrow> world" where
  "screenShareStep env s =
     (case setupScreenShare firstRender env s of
        Resolved ok s1 \<Rightarrow> s1
      | Rejected s1 \<Rightarrow>
          addViolation firstRender ''screen-share-optional'' Warning
            ''Screen sharing not available'' s1)"

definition finalChecks :: "world \<Rightarrow> world" where
  "finalChecks s =
     s\<lparr> systemChecks := (systemChecks s)\<lparr> networkStable := onLine s, noOtherApps := True \<rparr>,
        isSecureMode := True,
        currentStep := Verification \<rparr>"

text \<open>
  \<open>startSecureSetup\<close>, run by the click on the enter button: its own closure is the one
  of the current render, the closure of the \<open>addViolation\<close> it reaches through the three
  acquisition functions is the memoised one. The two one-second pauses are left out.
\<close>

definition startSecureSetup :: "SetupEnv \<Rightarrow> world \<Rightarrow> world" where
  "startSecureSetup env s =
     (if \<not> agreementAccepted s then s
      else
        (let c = renderClosure s;
             s1 = s\<lparr> isLoading := True, currentStep := Setup \<rparr>
         in setupFinally
           (case setupCamera firstRender env s1 of
              Rejected s2 \<Rightarrow> setupFailed c s2
            | Resolved cameraOk s2 \<Rightarrow>
                if \<not> cameraOk then setupFailed c s2
                else
                  (case enterFullscreen firstRender env s2 of
                     Rejected s3 \<Rightarrow> setupFailed c s3
                   | Resolved fullscreenOk s3 \<Rightarrow>
                       if \<not> fullscreenOk then setupFailed c s3
                       else finalChecks (screenShareStep env s3)))))"

text \<open>
  \<open>startExam\<close>; whether the prop \<open>onStartExam\<close> throws is the input, since the
  function has a handler for it.
\<close>

definition startExam :: "bool \<Rightarrow> world \<Rightarrow> world" where
  "startExam onStartExamThrows s =
     (let c = renderClosure s;
          s1 = s\<lparr> isLoading := True, currentStep := Exam, examStartTime := Some (clock s) \<rparr>;
          s2 = emit (ConsoleLog ''Questions fetched successfully:'') s1;
          s3 = emit OnStartExam s2;
          s4 = (if onStartExamThrows
                then handleSecurityTermination c ''Exam initialization failed''
                       (addViolation firstRender ''exam-start-failed'' Critical ''Failed to start exam''
                          (emit (ConsoleError ''Error starting exam:'') s3))
                else s3)
      in s4\<lparr> isLoading := False \<rparr>)"

text \<open>The \<open>disabled\<close> attribute of the start button of the verification screen.\<close>

definition startExamDisabled :: "world \<Rightarrow> bool" where
  "startExamDisabled s =
     (isLoading s \<or> \<not> camera (systemChecks s) \<or> \<not> networkStable (systemChecks s))"

section \<open>Monitoring\<close>

subsection \<open>The handlers\<close>

definition handleFullscreenChange :: "closure \<Rightarrow> world \<Rightarrow> world" where
  "handleFullscreenChange c s =
     (if \<not> fullscreenElement s
      then addViolation c ''fullscreen-exit'' Critical ''Exited fullscreen mode'' s else s)"

definition handleVisibilityChange :: "closure \<Rightarrow> world \<Rightarrow> world" where
  "handleVisibilityChange c s =
     (if docHidden s
      then addViolation c ''tab-switch'' Critical ''Switched tabs or minimized window'' s else s)"

definition handleBlur :: "closure \<Rightarrow> world \<Rightarrow> world" where
  "handleBlur c s = addViolation c ''focus-loss'' Warning ''Lost window focus'' s"

definition blockedKeys :: "string list" where
  "blockedKeys =
     [''F11'', ''F12'', ''Escape'', ''PrintScreen'', ''Insert'', ''Delete'', ''Meta'',
      ''Alt+Tab'', ''Ctrl+Shift+I'', ''Ctrl+Shift+J'', ''Ctrl+U'']"

definition combo :: "KeyboardEvent \<Rightarrow> string" where
  "combo e =
     (if ctrlKey e then ''Ctrl+'' else []) @ (if shiftKey e then ''Shift+'' else []) @
     (if altKey e then ''Alt+'' else []) @ key e"

definition handleKeyDown :: "closure \<Rightarrow> KeyboardEvent \<Rightarrow> world \<Rightarrow> world" where
  "handleKeyDown c e s =
     (if key e \<in> set blockedKeys \<or> combo e \<in> set blockedKeys
      then addViolation c ''blocked-key'' Warning (''Attempted to use blocked key: '' @ combo e)
             (emit StopPropagation (emit PreventDefault s))
      else s)"

definition handleContextMenu :: "closure \<Rightarrow> world \<Rightarrow> world" where
  "handleContextMenu c s =
     addViolation c ''context-menu'' Warning ''Attempted to open context menu''
       (emit PreventDefault s)"

definition handleMouseLeave :: "closure \<Rightarrow> world \<Rightarrow> world" where
  "handleMouseLeave c s = addViolation c ''mouse-leave'' Warning ''Mouse left the exam window'' s"

definition handleOnline :: "world \<Rightarrow> world" where
  "handleOnline s = s\<lparr> systemChecks := (systemChecks s)\<lparr> networkStable := True \<rparr> \<rparr>"

definition handleOffline :: "closure \<Rightarrow> world \<Rightarrow> world" where
  "handleOffline c s =
     addViolation c ''network-loss'' Critical ''Internet connection lost''
       (s\<lparr> systemChecks := (systemChecks s)\<lparr> networkStable := False \<rparr> \<rparr>)"

text \<open>
  The callback of the heartbeat interval; whether the probe is rejected is the input, and
  the rejection is taken to arrive at once.
\<close>

definition heartbeat :: "closure \<Rightarrow> bool \<Rightarrow> world \<Rightarrow> world" where
  "heartbeat c fetchRejects s =
     (let s1 = emit HeartbeatFetch s
      in if fetchRejects
         then addViolation c ''network-unstable'' Warning ''Network connection unstable'' s1
         else s1)"

text \<open>
  \<open>Number.prototype.toFixed(0)\<close> on a double that is not negative and below \<open>1e21\<close>:
  the integer nearest to the exact value of the double, the larger one at a tie, in
  decimal.
\<close>

fun digitsOf :: "nat \<Rightarrow> string" where
  "digitsOf n =
     (if n < 10 then [char_of (48 + n)]
      else digitsOf (n div 10) @ [char_of (48 + n mod 10)])"

definition toFixed0 :: "rat \<Rightarrow> string" where
  "toFixed0 x = digitsOf (nat \<lfloor>x + 1 / 2\<rfloor>)"

definition updateBatteryStatus :: "closure \<Rightarrow> world \<Rightarrow> world" where
  "updateBatteryStatus c s =
     (let isCharging = batteryCharging s;
          level = toDouble (batteryLevelValue s * 100);
          s1 = s\<lparr> systemChecks := (systemChecks s)\<lparr> batteryLevel := (isCharging \<or> level > 20) \<rparr> \<rparr>
      in if \<not> isCharging \<and> level < 20
         then addViolation c ''battery-low'' Warning
                (''Battery level low: '' @ toFixed0 level @ ''%'') s1
         else s1)"

subsection \<open>Attaching and detaching\<close>

text \<open>
  \<open>addEventListener\<close> ignores a listener that is registered already;
  \<open>removeEventListener\<close> removes the listener that has the same target, type, capture
  flag and function.
\<close>

definition addEventListener :: "listener \<Rightarrow> world \<Rightarrow> world" where
  "addEventListener l s =
     (if l \<in> set (listeners s) then s else s\<lparr> listeners := listeners s @ [l] \<rparr>)"

definition removeEventListener :: "listener \<Rightarrow> world \<Rightarrow> world" where
  "removeEventListener l s = s\<lparr> listeners := removeAll l (listeners s) \<rparr>"

definition mkListener :: "target \<Rightarrow> event_type \<Rightarrow> bool \<Rightarrow> handler \<Rightarrow> nat \<Rightarrow> listener" where
  "mkListener tg ty cap h g =
     \<lparr> l_target = tg, l_type = ty, l_capture = cap, l_handler = h, l_run = g \<rparr>"

definition securityListeners :: "nat \<Rightarrow> listener list" where
  "securityListeners g =
     [mkListener Document Fullscreenchange False HandleFullscreenChange g,
      mkListener Document Visibilitychange False HandleVisibilityChange g,
      mkListener Window Blur False HandleBlur g,
      mkListener Document Keydown True HandleKeyDown g,
      mkListener Document Contextmenu False HandleContextMenu g,
      mkListener Document Mouseleave False HandleMouseLeave g]"

definition networkListeners :: "nat \<Rightarrow> listener list" where
  "networkListeners g =
     [mkListener Window Online False HandleOnline g,
      mkListener Window Offline False HandleOffline g]"

definition batteryListeners :: "nat \<Rightarrow> listener list" where
  "batteryListeners g =
     [mkListener BatteryManager Chargingchange False UpdateBatteryStatus g,
      mkListener BatteryManager Levelchange False UpdateBatteryStatus g]"

text \<open>
  The three monitoring effects, all with the dependencies \<open>[isSecureMode, addViolation]\<close>.
  An effect that returns early returns no cleanup; the first two return one when they
  attach, remembered under the number of the run. The battery effect returns none. The
  promise of \<open>getBattery()\<close> is taken to resolve at once.
\<close>

definition securityEffect :: "world \<Rightarrow> world" where
  "securityEffect s =
     (if \<not> isSecureMode s then s\<lparr> securityCleanup := None \<rparr>
      else (let g = nextId s
            in (fold addEventListener (securityListeners g) s)
                 \<lparr> securityCleanup := Some g, nextId := Suc g \<rparr>))"

definition securityEffectCleanup :: "world \<Rightarrow> world" where
  "securityEffectCleanup s =
     (case securityCleanup s of
        None \<Rightarrow> s
      | Some g \<Rightarrow> fold removeEventListener (securityListeners g) s)"

definition networkEffect :: "world \<Rightarrow> world" where
  "networkEffect s =
     (if \<not> isSecureMode s then s\<lparr> networkCleanup := None \<rparr>
      else (let g = nextId s;
                s1 = fold addEventListener (networkListeners g) s;
                i = Suc g
            in s1\<lparr> heartbeatRef := Some i, intervals := intervals s1 @ [i],
                   networkCleanup := Some g, nextId := Suc i \<rparr>))"

definition networkEffectCleanup :: "world \<Rightarrow> world" where
  "networkEffectCleanup s =
     (case networkCleanup s of
        None \<Rightarrow> s
      | Some g \<Rightarrow>
          (let s1 = fold removeEventListener (networkListeners g) s
           in if truthy (heartbeatRef s1)
              then clearInterval (the (heartbeatRef s1)) s1 else s1))"

definition batteryEffect :: "world \<Rightarrow> world" where
  "batteryEffect s =
     (if \<not> isSecureMode s \<or> \<not> getBatterySupported s then s
      else (let g = nextId s;
                s1 = (fold addEventListener (batteryListeners g) s)\<lparr> nextId := Suc g \<rparr>
            in updateBatteryStatus firstRender s1))"

text \<open>
  After a handler has run React renders again and, when \<open>isSecureMode\<close> differs from its
  value at the last run of the effects, runs the cleanups of the last run and then the
  effects.
\<close>

definition commit :: "world \<Rightarrow> world" where
  "commit s =
     (if isSecureMode s = depIsSecureMode s then s
      else (batteryEffect (networkEffect (securityEffect
              (networkEffectCleanup (securityEffectCleanup s)))))
             \<lparr> depIsSecureMode := isSecureMode s \<rparr>)"

text \<open>
  Unmounting runs the cleanups of all effects: of the two monitoring effects that have
  one, and of the unmount effect, which calls \<open>cleanupSecureMode\<close>.
\<close>

definition unmount :: "world \<Rightarrow> world" where
  "unmount s = cleanupSecureMode firstRender (networkEffectCleanup (securityEffectCleanup s))"

subsection \<open>Events\<close>

datatype event =
    FullscreenChanged bool
  | VisibilityChanged bool
  | WindowBlurred
  | KeyPressed KeyboardEvent
  | ContextMenuRequested
  | MouseLeft
  | WentOnline
  | WentOffline
  | HeartbeatDue bool
  | ChargingChanged bool
  | LevelChanged rat
  | TimePassed nat
  | AgreementToggled bool
  | CancelClicked
  | EnterSecureModeClicked SetupEnv
  | StartExamClicked bool

text \<open>A listener called with an event.\<close>

definition fire :: "event \<Rightarrow> listener \<Rightarrow> world \<Rightarrow> world" where
  "fire ev l s =
     (case l_handler l of
        HandleFullscreenChange \<Rightarrow> handleFullscreenChange firstRender s
      | HandleVisibilityChange \<Rightarrow> handleVisibilityChange firstRender s
      | HandleBlur \<Rightarrow> handleBlur firstRender s
      | HandleKeyDown \<Rightarrow>
          (case ev of KeyPressed e \<Rightarrow> handleKeyDown firstRender e s | _ \<Rightarrow> s)
      | HandleContextMenu \<Rightarrow> handleContextMenu firstRender s
      | HandleMouseLeave \<Rightarrow> handleMouseLeave firstRender s
      | HandleOnline \<Rightarrow> handleOnline s
      | HandleOffline \<Rightarrow> handleOffline firstRender s
      | UpdateBatteryStatus \<Rightarrow> updateBatteryStatus firstRender s)"

definition listening :: "target \<Rightarrow> event_type \<Rightarrow> world \<Rightarrow> listener list" where
  "listening tg ty s = filter (\<lambda>l. l_target l = tg \<and> l_type l = ty) (listeners s)"

definition dispatch :: "target \<Rightarrow> event_type \<Rightarrow> event \<Rightarrow> world \<Rightarrow> world" where
  "dispatch tg ty ev s = fold (fire ev) (listening tg ty s) s"

text \<open>
  What an event does before React renders again. A browser event changes what the
  browser reports (a new battery level is the double nearest to the number given) and is
  given to the listeners of its type; a heartbeat is due once for
  each running interval; a control of the user interface acts only on the screen that
  shows it and only when it is not disabled.
\<close>

definition deliver :: "event \<Rightarrow> world \<Rightarrow> world" where
  "deliver ev s =
     (case ev of
        FullscreenChanged b \<Rightarrow> dispatch Document Fullscreenchange ev (s\<lparr> fullscreenElement := b \<rparr>)
      | VisibilityChanged b \<Rightarrow> dispatch Document Visibilitychange ev (s\<lparr> docHidden := b \<rparr>)
      | WindowBlurred \<Rightarrow> dispatch Window Blur ev s
      | KeyPressed e \<Rightarrow> dispatch Document Keydown ev s
      | ContextMenuRequested \<Rightarrow> dispatch Document Contextmenu ev s
      | MouseLeft \<Rightarrow> dispatch Document Mouseleave ev s
      | WentOnline \<Rightarrow> dispatch Window Online ev (s\<lparr> onLine := True \<rparr>)
      | WentOffline \<Rightarrow> dispatch Window Offline ev (s\<lparr> onLine := False \<rparr>)
      | HeartbeatDue rejects \<Rightarrow> fold (\<lambda>i. heartbeat firstRender rejects) (intervals s) s
      | ChargingChanged b \<Rightarrow> dispatch BatteryManager Chargingchange ev (s\<lparr> batteryCharging := b \<rparr>)
      | LevelChanged x \<Rightarrow>
          dispatch BatteryManager Levelchange ev (s\<lparr> batteryLevelValue := toDouble x \<rparr>)
      | TimePassed n \<Rightarrow> s\<lparr> clock := clock s + n \<rparr>
      | AgreementToggled b \<Rightarrow>
          (if currentStep s = Agreement then s\<lparr> agreementAccepted := b \<rparr> else s)
      | CancelClicked \<Rightarrow>
          (if currentStep s = Agreement then emit OnExitSecure s else s)
      | EnterSecureModeClicked env \<Rightarrow>
          (if currentStep s = Agreement \<and> \<not> (\<not> agreementAccepted s \<or> isLoading s)
           then startSecureSetup env s else s)
      | StartExamClicked throws \<Rightarrow>
          (if currentStep s = Verification \<and> \<not> startExamDisabled s
           then startExam throws s else s))"

definition step :: "event \<Rightarrow> world \<Rightarrow> world" where
  "step ev s = commit (deliver ev s)"

fun run :: "event list \<Rightarrow> world \<Rightarrow> world" where
  "run [] s = s"
| "run (ev # evs) s = run evs (step ev s)"

section \<open>Observations on a run\<close>

text \<open>
  Counts read off the trace and the log: how often the termination has shown its alert,
  how often the exit signal was sent, how many critical violations are recorded.
\<close>

fun isTerminationAlert :: "effect \<Rightarrow> bool" where
  "isTerminationAlert (Alert m) = prefix ''Security violation detected: '' m"
| "isTerminationAlert _ = False"

definition terminations :: "world \<Rightarrow> nat" where
  "terminations s = length (filter isTerminationAlert (effects s))"

definition exitSignals :: "world \<Rightarrow> nat" where
  "exitSignals s = length (filter (\<lambda>e. e = OnExitSecure) (effects s))"

definition criticals :: "world \<Rightarrow> nat" where
  "criticals s = length (filter (\<lambda>v. severity v = Critical) (violations s))"

text \<open>
  The side effects of one call of \<open>cleanupSecureMode\<close>, as a list.
\<close>

definition streamStops :: "MediaStream option \<Rightarrow> effect list" where
  "streamStops st = (case st of Some m \<Rightarrow> map TrackStop (getTracks m) | None \<Rightarrow> [])"

definition cleanupEffects :: "closure \<Rightarrow> world \<Rightarrow> effect list" where
  "cleanupEffects c s =
     streamStops (c_cameraStream c) @ streamStops (c_screenStream c) @
     (if exitFullscreenSupported s \<and> fullscreenElement s then [ExitFullscreen] else []) @
     (if truthy (heartbeatRef s) then [ClearInterval (the (heartbeatRef s))] else [])"

text \<open>
  A violation record, written as a function of its four fields.
\<close>

definition violation :: "string \<Rightarrow> nat \<Rightarrow> severity \<Rightarrow> string \<Rightarrow> SecurityViolation" where
  "violation ty t sev d = \<lparr> type = ty, timestamp = t, severity = sev, description = d \<rparr>"

text \<open>Concrete sessions, used to evaluate the model.\<close>

definition exampleEnv :: SetupEnv where
  "exampleEnv = \<lparr> getUserMedia = Some (MediaStream [1, 2]), cameraRefCurrent = False,
     playResolves = True, fullscreenApi = RequestFullscreen, fullscreenResolves = True,
     getDisplayMedia = Some (MediaStream [3]) \<rparr>"

definition cameraDeniedEnv :: SetupEnv where
  "cameraDeniedEnv = exampleEnv\<lparr> getUserMedia := None \<rparr>"

definition screenDeniedEnv :: SetupEnv where
  "screenDeniedEnv = exampleEnv\<lparr> getDisplayMedia := None \<rparr>"

definition exampleMount :: world where
  "exampleMount = mount True True True False (15 / 100)"

definition exampleAccepted :: world where
  "exampleAccepted = step (AgreementToggled True) exampleMount"

definition exampleSecure :: world where
  "exampleSecure = step (EnterSecureModeClicked exampleEnv) exampleAccepted"

text \<open>
  The side effects of one call of \<open>handleSecurityTermination\<close>, and the number of
  times a given track was stopped.
\<close>

definition terminationEffects :: "closure \<Rightarrow> string \<Rightarrow> world \<Rightarrow> effect list" where
  "terminationEffects c r s =
     (if truthy (violationTimeoutRef s) then [ClearTimeout (the (violationTimeoutRef s))] else [])
     @ [Alert (terminationMessage r)] @ cleanupEffects c s @ [OnExitSecure]"

definition trackStops :: "nat \<Rightarrow> world \<Rightarrow> nat" where
  "trackStops t s = count_list (effects s) (TrackStop t)"

text \<open>
  The blocked keys as the specification lists them, to compare with \<open>blockedKeys\<close>, and
  two key presses.
\<close>

definition specBlockedKeys :: "string list" where
  "specBlockedKeys =
     [''F11'', ''F12'', ''Escape'', ''PrintScreen'', ''Insert'', ''Delete'', ''Meta'',
      ''Ctrl+Shift+I'', ''Ctrl+Shift+J'', ''Ctrl+U'']"

definition altTab :: KeyboardEvent where
  "altTab = \<lparr> key = ''Tab'', ctrlKey = False, shiftKey = False, altKey = True \<rparr>"

definition ctrlShiftI :: KeyboardEvent where
  "ctrlShiftI = \<lparr> key = ''I'', ctrlKey = True, shiftKey = True, altKey = False \<rparr>"

text \<open>
  \<open>addEventListener\<close> on the list of listeners alone.
\<close>

definition addListener :: "listener \<Rightarrow> listener list \<Rightarrow> listener list" where
  "addListener l ls = (if l \<in> set ls then ls else ls @ [l])"

text \<open>
  The condition under which \<open>updateBatteryStatus\<close> warns, and the number of
  \<open>battery-low\<close> violations in the log.
\<close>

definition lowBattery :: "world \<Rightarrow> bool" where
  "lowBattery s = (\<not> batteryCharging s \<and> toDouble (batteryLevelValue s * 100) < 20)"

definition batteryLowCount :: "world \<Rightarrow> nat" where
  "batteryLowCount s = length (filter (\<lambda>v. type v = ''battery-low'') (violations s))"

text \<open>
  Two relations between a state and a later one. \<open>tracks\<close>: neither count went down,
  and the termination ran in between exactly when a critical violation was recorded in
  between. \<open>follows\<close>: moreover, from the verification or the exam screen the later state
  is on one of them too, as many exit signals were sent in between as terminations ran,
  and the later state is in secure mode exactly when the earlier one was and no critical
  violation was recorded in between.
\<close>

definition tracks :: "world \<Rightarrow> world \<Rightarrow> bool" where
  "tracks s s' =
     (criticals s \<le> criticals s' \<and> terminations s \<le> terminations s' \<and>
      (terminations s < terminations s') = (criticals s < criticals s'))"

definition secured :: "world \<Rightarrow> bool" where
  "secured s = (currentStep s = Verification \<or> currentStep s = Exam)"

definition follows :: "world \<Rightarrow> world \<Rightarrow> bool" where
  "follows s s' =
     (tracks s s' \<and>
      (secured s \<longrightarrow> secured s' \<and>
         exitSignals s' + terminations s = exitSignals s + terminations s' \<and>
         isSecureMode s' = (isSecureMode s \<and> criticals s' = criticals s)))"

text \<open>
  Overwriting the flag \<open>noOtherApps\<close>, to compare runs that differ in it only.
\<close>

definition setNoOtherApps :: "bool \<Rightarrow> world \<Rightarrow> world" where
  "setNoOtherApps b s = s\<lparr> systemChecks := (systemChecks s)\<lparr> noOtherApps := b \<rparr> \<rparr>"

definition fullscreenDeniedEnv :: SetupEnv where
  "fullscreenDeniedEnv = exampleEnv\<lparr> fullscreenResolves := False \<rparr>"

text \<open>
  A second attempt: the first one got the camera and was refused fullscreen, so the
  agreement screen is shown again while the state still holds the camera stream.
\<close>

definition exampleRetry :: world where
  "exampleRetry = step (EnterSecureModeClicked fullscreenDeniedEnv) exampleAccepted"

section \<open>Basic facts about the operations\<close>

lemma cleanup_effects: "effects (cleanupSecureMode c s) = effects s @ cleanupEffects c s"
  by (simp add: cleanupSecureMode_def cleanupEffects_def streamStops_def Let_def stopTracks_def
      emit_def clearInterval_def split: option.split)

lemma cleanup_violations [simp]: "violations (cleanupSecureMode c s) = violations s"
  by (simp add: cleanupSecureMode_def Let_def stopTracks_def emit_def clearInterval_def
      split: option.split)

lemma cleanup_systemChecks [simp]: "systemChecks (cleanupSecureMode c s) = systemChecks s"
  by (simp add: cleanupSecureMode_def Let_def stopTracks_def emit_def clearInterval_def
      split: option.split)

lemma cleanup_currentStep [simp]: "currentStep (cleanupSecureMode c s) = currentStep s"
  by (simp add: cleanupSecureMode_def Let_def stopTracks_def emit_def clearInterval_def
      split: option.split)

lemma cleanup_isSecureMode [simp]: "isSecureMode (cleanupSecureMode c s) = False"
  by (simp add: cleanupSecureMode_def Let_def)

lemma cleanup_clock [simp]: "clock (cleanupSecureMode c s) = clock s"
  by (simp add: cleanupSecureMode_def Let_def stopTracks_def emit_def clearInterval_def
      split: option.split)

lemma cleanup_listeners [simp]: "listeners (cleanupSecureMode c s) = listeners s"
  by (simp add: cleanupSecureMode_def Let_def stopTracks_def emit_def clearInterval_def
      split: option.split)

lemma hst_effects:
  "effects (handleSecurityTermination c r s) =
     effects s @ (if truthy (violationTimeoutRef s) then [ClearTimeout (the (violationTimeoutRef s))] else [])
       @ [Alert (terminationMessage r)] @ cleanupEffects c s @ [OnExitSecure]"
  by (simp add: handleSecurityTermination_def Let_def cleanup_effects emit_def cleanupEffects_def)

lemma hst_violations [simp]: "violations (handleSecurityTermination c r s) = violations s"
  by (simp add: handleSecurityTermination_def Let_def emit_def)

lemma hst_systemChecks [simp]: "systemChecks (handleSecurityTermination c r s) = systemChecks s"
  by (simp add: handleSecurityTermination_def Let_def emit_def)

lemma hst_currentStep [simp]: "currentStep (handleSecurityTermination c r s) = currentStep s"
  by (simp add: handleSecurityTermination_def Let_def emit_def)

lemma hst_isSecureMode [simp]: "isSecureMode (handleSecurityTermination c r s) = False"
  by (simp add: handleSecurityTermination_def Let_def emit_def)

lemma hst_clock [simp]: "clock (handleSecurityTermination c r s) = clock s"
  by (simp add: handleSecurityTermination_def Let_def emit_def)

lemma hst_listeners [simp]: "listeners (handleSecurityTermination c r s) = listeners s"
  by (simp add: handleSecurityTermination_def Let_def emit_def)

lemma addViolation_violations:
  "violations (addViolation c ty sev d s) = violations s @ [violation ty (clock s) sev d]"
  by (simp add: addViolation_def Let_def emit_def violation_def)

lemma addViolation_systemChecks [simp]: "systemChecks (addViolation c ty sev d s) = systemChecks s"
  by (simp add: addViolation_def Let_def emit_def)

lemma addViolation_currentStep [simp]: "currentStep (addViolation c ty sev d s) = currentStep s"
  by (simp add: addViolation_def Let_def emit_def)

lemma addViolation_isSecureMode:
  "isSecureMode (addViolation c ty sev d s) = (sev \<noteq> Critical \<and> isSecureMode s)"
  by (simp add: addViolation_def Let_def emit_def)

lemma addViolation_clock [simp]: "clock (addViolation c ty sev d s) = clock s"
  by (simp add: addViolation_def Let_def emit_def)

lemma addViolation_listeners [simp]: "listeners (addViolation c ty sev d s) = listeners s"
  by (simp add: addViolation_def Let_def emit_def)

lemma addViolation_warning_effects:
  "effects (addViolation c ty Warning d s) = effects s @ [OnSecurityViolation d Warning]"
  by (simp add: addViolation_def Let_def emit_def)

lemma addViolation_critical_effects:
  "effects (addViolation c ty Critical d s) =
     effects s @ [OnSecurityViolation d Critical]
       @ (if truthy (violationTimeoutRef s) then [ClearTimeout (the (violationTimeoutRef s))] else [])
       @ [Alert (terminationMessage d)] @ cleanupEffects c s @ [OnExitSecure]"
  by (simp add: addViolation_def Let_def hst_effects emit_def cleanupEffects_def)

lemma cleanupEffects_cong:
  "exitFullscreenSupported s' = exitFullscreenSupported s \<Longrightarrow> fullscreenElement s' = fullscreenElement s
   \<Longrightarrow> heartbeatRef s' = heartbeatRef s \<Longrightarrow> cleanupEffects c s' = cleanupEffects c s"
  by (simp add: cleanupEffects_def)

lemma hst_browser [simp]:
  "exitFullscreenSupported (handleSecurityTermination c r s) = exitFullscreenSupported s"
  "fullscreenElement (handleSecurityTermination c r s) = fullscreenElement s"
  "heartbeatRef (handleSecurityTermination c r s) = heartbeatRef s"
  "violationTimeoutRef (handleSecurityTermination c r s) = violationTimeoutRef s"
  by (simp_all add: handleSecurityTermination_def cleanupSecureMode_def Let_def stopTracks_def
      emit_def clearInterval_def split: option.split)

lemma terminationEffects_hst:
  "terminationEffects c r' (handleSecurityTermination c r s) = terminationEffects c r' s"
  by (simp add: terminationEffects_def cleanupEffects_cong [of "handleSecurityTermination c r s" s])

subsection \<open>The monitoring effects\<close>

lemma fold_addEventListener:
  "fold addEventListener ls s = s\<lparr> listeners := fold addListener ls (listeners s) \<rparr>"
  by (induction ls arbitrary: s) (simp_all add: addEventListener_def addListener_def)

lemma fold_removeEventListener:
  "fold removeEventListener ls s = s\<lparr> listeners := fold removeAll ls (listeners s) \<rparr>"
  by (induction ls arbitrary: s) (simp_all add: removeEventListener_def)

lemma securityEffect_alt:
  "securityEffect s =
     (if \<not> isSecureMode s then s\<lparr> securityCleanup := None \<rparr>
      else s\<lparr> listeners := fold addListener (securityListeners (nextId s)) (listeners s),
             securityCleanup := Some (nextId s), nextId := Suc (nextId s) \<rparr>)"
  by (simp add: securityEffect_def Let_def fold_addEventListener)

lemma securityEffectCleanup_alt:
  "securityEffectCleanup s =
     (case securityCleanup s of
        None \<Rightarrow> s
      | Some g \<Rightarrow> s\<lparr> listeners := fold removeAll (securityListeners g) (listeners s) \<rparr>)"
  by (simp add: securityEffectCleanup_def fold_removeEventListener split: option.split)

lemma networkEffect_alt:
  "networkEffect s =
     (if \<not> isSecureMode s then s\<lparr> networkCleanup := None \<rparr>
      else s\<lparr> listeners := fold addListener (networkListeners (nextId s)) (listeners s),
             heartbeatRef := Some (Suc (nextId s)),
             intervals := intervals s @ [Suc (nextId s)],
             networkCleanup := Some (nextId s), nextId := Suc (Suc (nextId s)) \<rparr>)"
  by (simp add: networkEffect_def Let_def fold_addEventListener)

lemma networkEffectCleanup_alt:
  "networkEffectCleanup s =
     (case networkCleanup s of
        None \<Rightarrow> s
      | Some g \<Rightarrow>
          (if truthy (heartbeatRef s)
           then s\<lparr> listeners := fold removeAll (networkListeners g) (listeners s),
                   intervals := removeAll (the (heartbeatRef s)) (intervals s),
                   effects := effects s @ [ClearInterval (the (heartbeatRef s))] \<rparr>
           else s\<lparr> listeners := fold removeAll (networkListeners g) (listeners s) \<rparr>))"
  by (simp add: networkEffectCleanup_def Let_def fold_removeEventListener clearInterval_def emit_def
      split: option.split)

lemma batteryEffect_alt:
  "batteryEffect s =
     (if \<not> isSecureMode s \<or> \<not> getBatterySupported s then s
      else updateBatteryStatus firstRender
             (s\<lparr> listeners := fold addListener (batteryListeners (nextId s)) (listeners s),
                 nextId := Suc (nextId s) \<rparr>))"
  by (simp add: batteryEffect_def Let_def fold_addEventListener)

lemma updateBatteryStatus_fields [simp]:
  "currentStep (updateBatteryStatus c s) = currentStep s"
  "isSecureMode (updateBatteryStatus c s) = isSecureMode s"
  "listeners (updateBatteryStatus c s) = listeners s"
  "clock (updateBatteryStatus c s) = clock s"
  by (simp_all add: updateBatteryStatus_def Let_def addViolation_isSecureMode)

lemma security_fields [simp]:
  "currentStep (securityEffect s) = currentStep s"
  "isSecureMode (securityEffect s) = isSecureMode s"
  "violations (securityEffect s) = violations s"
  "effects (securityEffect s) = effects s"
  "systemChecks (securityEffect s) = systemChecks s"
  "getBatterySupported (securityEffect s) = getBatterySupported s"
  "currentStep (securityEffectCleanup s) = currentStep s"
  "isSecureMode (securityEffectCleanup s) = isSecureMode s"
  "violations (securityEffectCleanup s) = violations s"
  "effects (securityEffectCleanup s) = effects s"
  "systemChecks (securityEffectCleanup s) = systemChecks s"
  "getBatterySupported (securityEffectCleanup s) = getBatterySupported s"
  by (simp_all add: securityEffect_alt securityEffectCleanup_alt split: option.split)

lemma network_fields [simp]:
  "currentStep (networkEffect s) = currentStep s"
  "isSecureMode (networkEffect s) = isSecureMode s"
  "violations (networkEffect s) = violations s"
  "effects (networkEffect s) = effects s"
  "systemChecks (networkEffect s) = systemChecks s"
  "getBatterySupported (networkEffect s) = getBatterySupported s"
  "currentStep (networkEffectCleanup s) = currentStep s"
  "isSecureMode (networkEffectCleanup s) = isSecureMode s"
  "violations (networkEffectCleanup s) = violations s"
  "systemChecks (networkEffectCleanup s) = systemChecks s"
  "getBatterySupported (networkEffectCleanup s) = getBatterySupported s"
  by (simp_all add: networkEffect_alt networkEffectCleanup_alt split: option.split)

lemma battery_fields [simp]:
  "currentStep (batteryEffect s) = currentStep s"
  "isSecureMode (batteryEffect s) = isSecureMode s"
  by (simp_all add: batteryEffect_alt)

lemma commit_fields [simp]:
  "currentStep (commit s) = currentStep s"
  "isSecureMode (commit s) = isSecureMode s"
  by (simp_all add: commit_def)

subsection \<open>Battery and listeners\<close>

text \<open>
  The rounding of the product, on three levels: just below 0.2 the product is the double
  20 and not below it; at 0.145 it is below 14.5 and prints as 14; at 0.07 it is the
  double next above 7.
\<close>

lemma toDouble_products:
  "toDouble (toDouble (19999999999999998 / 100000000000000000) * 100) = 20"
  "toFixed0 (toDouble (toDouble (145 / 1000) * 100)) = ''14''"
  "toDouble (toDouble (7 / 100) * 100) = 7 + 1 / 2 ^ 50"
  by code_simp+

lemma updateBatteryStatus_violations:
  "violations (updateBatteryStatus c s) =
     violations s @
       (if \<not> batteryCharging s \<and> toDouble (batteryLevelValue s * 100) < 20
        then [violation ''battery-low'' (clock s) Warning
                (''Battery level low: '' @ toFixed0 (toDouble (batteryLevelValue s * 100)) @ ''%'')]
        else [])"
  by (simp add: updateBatteryStatus_def Let_def addViolation_violations)

lemma listening_update [simp]:
  "listening tg ty (s\<lparr> batteryLevelValue := x \<rparr>) = listening tg ty s"
  "listening tg ty (s\<lparr> batteryCharging := b \<rparr>) = listening tg ty s"
  "listening tg ty (s\<lparr> fullscreenElement := b \<rparr>) = listening tg ty s"
  "listening tg ty (s\<lparr> docHidden := b \<rparr>) = listening tg ty s"
  "listening tg ty (s\<lparr> onLine := b \<rparr>) = listening tg ty s"
  by (simp_all add: listening_def)

subsection \<open>Terminations follow critical violations\<close>

lemma tracks_refl [simp]: "tracks s s"
  by (simp add: tracks_def)

lemma tracks_trans: "tracks s s' \<Longrightarrow> tracks s' s'' \<Longrightarrow> tracks s s''"
  by (auto simp add: tracks_def)

lemma follows_refl [simp]: "follows s s"
  by (simp add: follows_def)

lemma follows_trans: "follows s s' \<Longrightarrow> follows s' s'' \<Longrightarrow> follows s s''"
proof -
  assume a: "follows s s'" and b: "follows s' s''"
  from a b have t: "tracks s s''" by (auto simp add: follows_def intro: tracks_trans)
  have "secured s \<longrightarrow> secured s'' \<and>
         exitSignals s'' + terminations s = exitSignals s + terminations s'' \<and>
         isSecureMode s'' = (isSecureMode s \<and> criticals s'' = criticals s)"
  proof
    assume h: "secured s"
    from a h have a': "secured s'" "exitSignals s' + terminations s = exitSignals s + terminations s'"
      "isSecureMode s' = (isSecureMode s \<and> criticals s' = criticals s)"
      "criticals s \<le> criticals s'"
      by (simp_all add: follows_def tracks_def)
    from b a'(1) have b': "secured s''" "exitSignals s'' + terminations s' = exitSignals s' + terminations s''"
      "isSecureMode s'' = (isSecureMode s' \<and> criticals s'' = criticals s')"
      "criticals s' \<le> criticals s''"
      by (simp_all add: follows_def tracks_def)
    from a'(2) b'(2) have "exitSignals s'' + terminations s = exitSignals s + terminations s''"
      by arith
    moreover from a'(3,4) b'(3,4)
    have "isSecureMode s'' = (isSecureMode s \<and> criticals s'' = criticals s)" by auto
    ultimately show "secured s'' \<and>
         exitSignals s'' + terminations s = exitSignals s + terminations s'' \<and>
         isSecureMode s'' = (isSecureMode s \<and> criticals s'' = criticals s)"
      using b'(1) by simp
  qed
  with t show ?thesis by (simp add: follows_def)
qed

lemma follows_same:
  "violations s' = violations s \<Longrightarrow> terminations s' = terminations s \<Longrightarrow>
   exitSignals s' = exitSignals s \<Longrightarrow> currentStep s' = currentStep s \<Longrightarrow>
   isSecureMode s' = isSecureMode s \<Longrightarrow> follows s s'"
  by (simp add: follows_def tracks_def criticals_def secured_def)

lemma follows_fold:
  "(\<And>x s. follows s (f x s)) \<Longrightarrow> follows s (fold f xs s)"
proof (induction xs arbitrary: s)
  case Nil
  show ?case by simp
next
  case (Cons x xs)
  have "follows s (f x s)" by (rule Cons.prems)
  moreover have "follows (f x s) (fold f xs (f x s))" by (rule Cons.IH) (rule Cons.prems)
  ultimately show ?case by (simp add: follows_trans)
qed

lemma cleanupEffects_quiet [simp]:
  "filter isTerminationAlert (cleanupEffects c s) = []"
  "filter (\<lambda>e. e = OnExitSecure) (cleanupEffects c s) = []"
  by (auto simp add: cleanupEffects_def streamStops_def filter_empty_conv split: option.split)

lemma terminationMessage_alert [simp]:
  "prefix ''Security violation detected: '' (terminationMessage r)"
  by (simp add: terminationMessage_def)

lemma addViolation_effects:
  "effects (addViolation c ty sev d s) =
     effects s @ [OnSecurityViolation d sev] @
       (if sev = Critical then terminationEffects c d s else [])"
  by (cases sev) (simp_all add: addViolation_warning_effects addViolation_critical_effects
      terminationEffects_def)

lemma terminationEffects_counts [simp]:
  "length (filter isTerminationAlert (terminationEffects c r s)) = 1"
  "length (filter (\<lambda>e. e = OnExitSecure) (terminationEffects c r s)) = 1"
  by (simp_all add: terminationEffects_def)

lemma addViolation_counts:
  "criticals (addViolation c ty sev d s) = criticals s + (if sev = Critical then 1 else 0)"
  "terminations (addViolation c ty sev d s) = terminations s + (if sev = Critical then 1 else 0)"
  "exitSignals (addViolation c ty sev d s) = exitSignals s + (if sev = Critical then 1 else 0)"
  by (simp_all add: criticals_def terminations_def exitSignals_def addViolation_violations
      addViolation_effects violation_def)

lemma follows_addViolation: "follows s (addViolation c ty sev d s)"
  by (cases sev)
    (simp_all add: follows_def tracks_def addViolation_counts addViolation_isSecureMode secured_def)

lemma follows_emit_other:
  "\<not> isTerminationAlert e \<Longrightarrow> e \<noteq> OnExitSecure \<Longrightarrow> follows s (emit e s)"
  by (rule follows_same) (simp_all add: emit_def terminations_def exitSignals_def)

lemma follows_handlers:
  "follows s (handleFullscreenChange c s)"
  "follows s (handleVisibilityChange c s)"
  "follows s (handleBlur c s)"
  "follows s (handleMouseLeave c s)"
  by (simp_all add: handleFullscreenChange_def handleVisibilityChange_def handleBlur_def
      handleMouseLeave_def follows_addViolation)

lemma follows_handleContextMenu: "follows s (handleContextMenu c s)"
  unfolding handleContextMenu_def
  by (rule follows_trans [OF follows_emit_other follows_addViolation]) simp_all

lemma follows_handleKeyDown: "follows s (handleKeyDown c e s)"
proof -
  have "follows s (emit PreventDefault s)" by (rule follows_emit_other) simp_all
  moreover have "follows (emit PreventDefault s) (emit StopPropagation (emit PreventDefault s))"
    by (rule follows_emit_other) simp_all
  ultimately have "follows s (emit StopPropagation (emit PreventDefault s))"
    by (rule follows_trans)
  then show ?thesis
    unfolding handleKeyDown_def
    by (auto intro: follows_trans follows_addViolation)
qed

lemma follows_handleOnline: "follows s (handleOnline s)"
  by (rule follows_same) (simp_all add: handleOnline_def terminations_def exitSignals_def)

lemma follows_handleOffline: "follows s (handleOffline c s)"
proof -
  have "follows s (s\<lparr> systemChecks := (systemChecks s)\<lparr> networkStable := False \<rparr> \<rparr>)"
    by (rule follows_same) (simp_all add: terminations_def exitSignals_def)
  then show ?thesis
    unfolding handleOffline_def by (rule follows_trans) (rule follows_addViolation)
qed

lemma follows_updateBatteryStatus: "follows s (updateBatteryStatus c s)"
proof -
  have "follows s (s\<lparr> systemChecks := (systemChecks s)\<lparr> batteryLevel :=
      (batteryCharging s \<or> toDouble (batteryLevelValue s * 100) > 20) \<rparr> \<rparr>)"
    by (rule follows_same) (simp_all add: terminations_def exitSignals_def)
  then show ?thesis
    unfolding updateBatteryStatus_def Let_def
    by (auto intro: follows_trans follows_addViolation)
qed

lemma follows_heartbeat: "follows s (heartbeat c rejects s)"
proof -
  have "follows s (emit HeartbeatFetch s)" by (rule follows_emit_other) simp_all
  then show ?thesis
    unfolding heartbeat_def Let_def
    by (auto intro: follows_trans follows_addViolation)
qed

lemma follows_fire: "follows s (fire ev l s)"
  by (simp add: fire_def follows_handlers follows_handleContextMenu follows_handleKeyDown
      follows_handleOnline follows_handleOffline follows_updateBatteryStatus
      split: handler.split event.split)

lemma follows_dispatch: "follows s (dispatch tg ty ev s)"
  unfolding dispatch_def by (rule follows_fold) (rule follows_fire)

lemma follows_commit: "follows s (commit s)"
proof (cases "isSecureMode s = depIsSecureMode s")
  case True
  then show ?thesis by (simp add: commit_def)
next
  case False
  let ?s1 = "securityEffectCleanup s"
  let ?s2 = "networkEffectCleanup ?s1"
  let ?s3 = "securityEffect ?s2"
  let ?s4 = "networkEffect ?s3"
  let ?s5 = "batteryEffect ?s4"
  have f1: "follows s ?s1"
    by (rule follows_same) (simp_all add: terminations_def exitSignals_def)
  have f2: "\<And>u. follows u (networkEffectCleanup u)"
    by (rule follows_same)
      (simp_all add: terminations_def exitSignals_def networkEffectCleanup_alt split: option.split)
  have f3: "\<And>u. follows u (securityEffect u)"
    by (rule follows_same) (simp_all add: terminations_def exitSignals_def)
  have f4: "\<And>u. follows u (networkEffect u)"
    by (rule follows_same) (simp_all add: terminations_def exitSignals_def)
  have f5: "\<And>u. follows u (batteryEffect u)"
  proof -
    fix u
    have "follows u (u\<lparr> listeners := fold addListener (batteryListeners (nextId u)) (listeners u),
                 nextId := Suc (nextId u) \<rparr>)"
      by (rule follows_same) (simp_all add: terminations_def exitSignals_def)
    then show "follows u (batteryEffect u)"
      unfolding batteryEffect_alt
      by (auto intro: follows_trans follows_updateBatteryStatus)
  qed
  have f6: "follows ?s5 (?s5\<lparr> depIsSecureMode := isSecureMode s \<rparr>)"
    by (rule follows_same) (simp_all add: terminations_def exitSignals_def)
  have "follows s ?s5"
    by (rule follows_trans [OF f1]) (rule follows_trans [OF f2], rule follows_trans [OF f3],
        rule follows_trans [OF f4], rule f5)
  then have "follows s (?s5\<lparr> depIsSecureMode := isSecureMode s \<rparr>)"
    using f6 by (rule follows_trans)
  then show ?thesis using False by (simp add: commit_def)
qed

lemma counts_emit [simp]:
  "criticals (emit e s) = criticals s"
  "terminations (emit e s) = terminations s + (if isTerminationAlert e then 1 else 0)"
  "exitSignals (emit e s) = exitSignals s + (if e = OnExitSecure then 1 else 0)"
  by (simp_all add: emit_def criticals_def terminations_def exitSignals_def)

lemma counts_cleanup [simp]:
  "criticals (cleanupSecureMode c s) = criticals s"
  "terminations (cleanupSecureMode c s) = terminations s"
  "exitSignals (cleanupSecureMode c s) = exitSignals s"
  by (simp_all add: criticals_def terminations_def exitSignals_def cleanup_effects)

lemma counts_hst [simp]:
  "criticals (handleSecurityTermination c r s) = criticals s"
  "terminations (handleSecurityTermination c r s) = Suc (terminations s)"
  "exitSignals (handleSecurityTermination c r s) = Suc (exitSignals s)"
  by (simp_all add: criticals_def terminations_def exitSignals_def hst_effects)

lemma counts_setupFailed [simp]:
  "criticals (setupFailed c s) = criticals s"
  "terminations (setupFailed c s) = terminations s"
  by (simp_all add: setupFailed_def Let_def criticals_def terminations_def emit_def cleanup_effects)

lemma counts_update [simp]:
  "criticals (s\<lparr> isLoading := b \<rparr>) = criticals s"
  "terminations (s\<lparr> isLoading := b \<rparr>) = terminations s"
  "criticals (s\<lparr> currentStep := st \<rparr>) = criticals s"
  "terminations (s\<lparr> currentStep := st \<rparr>) = terminations s"
  "criticals (s\<lparr> cameraStream := cs \<rparr>) = criticals s"
  "terminations (s\<lparr> cameraStream := cs \<rparr>) = terminations s"
  "criticals (s\<lparr> screenStream := cs \<rparr>) = criticals s"
  "terminations (s\<lparr> screenStream := cs \<rparr>) = terminations s"
  "criticals (s\<lparr> systemChecks := sc \<rparr>) = criticals s"
  "terminations (s\<lparr> systemChecks := sc \<rparr>) = terminations s"
  "criticals (s\<lparr> fullscreenElement := b \<rparr>) = criticals s"
  "terminations (s\<lparr> fullscreenElement := b \<rparr>) = terminations s"
  "criticals (s\<lparr> isSecureMode := b \<rparr>) = criticals s"
  "terminations (s\<lparr> isSecureMode := b \<rparr>) = terminations s"
  "criticals (s\<lparr> examStartTime := t \<rparr>) = criticals s"
  "terminations (s\<lparr> examStartTime := t \<rparr>) = terminations s"
  by (simp_all add: criticals_def terminations_def)

lemma tracks_startSecureSetup: "tracks s (startSecureSetup env s)"
  by (simp add: tracks_def startSecureSetup_def setupCamera_def cameraDenied_def
      enterFullscreen_def screenShareStep_def setupScreenShare_def finalChecks_def
      setupFinally_def Let_def addViolation_counts split: option.split)

lemma exits_update [simp]:
  "exitSignals (s\<lparr> isLoading := b \<rparr>) = exitSignals s"
  "exitSignals (s\<lparr> currentStep := st \<rparr>) = exitSignals s"
  "exitSignals (s\<lparr> examStartTime := t \<rparr>) = exitSignals s"
  by (simp_all add: exitSignals_def)

lemma emit_fields [simp]:
  "isSecureMode (emit e s) = isSecureMode s"
  "currentStep (emit e s) = currentStep s"
  "violations (emit e s) = violations s"
  "systemChecks (emit e s) = systemChecks s"
  by (simp_all add: emit_def)

lemma follows_startExam:
  "currentStep s = Verification \<Longrightarrow> follows s (startExam throws s)"
  by (simp add: follows_def tracks_def secured_def startExam_def Let_def addViolation_counts)

lemma follows_deliver: "follows s (deliver ev s)"
proof (cases ev)
  case (FullscreenChanged b)
  have "follows s (s\<lparr> fullscreenElement := b \<rparr>)"
    by (rule follows_same) (simp_all add: terminations_def exitSignals_def)
  then show ?thesis
    unfolding deliver_def FullscreenChanged event.case
    by (rule follows_trans) (rule follows_dispatch)
next
  case (VisibilityChanged b)
  have "follows s (s\<lparr> docHidden := b \<rparr>)"
    by (rule follows_same) (simp_all add: terminations_def exitSignals_def)
  then show ?thesis
    unfolding deliver_def VisibilityChanged event.case
    by (rule follows_trans) (rule follows_dispatch)
next
  case WindowBlurred
  then show ?thesis by (simp add: deliver_def follows_dispatch)
next
  case (KeyPressed e)
  then show ?thesis by (simp add: deliver_def follows_dispatch)
next
  case ContextMenuRequested
  then show ?thesis by (simp add: deliver_def follows_dispatch)
next
  case MouseLeft
  then show ?thesis by (simp add: deliver_def follows_dispatch)
next
  case WentOnline
  have "follows s (s\<lparr> onLine := True \<rparr>)"
    by (rule follows_same) (simp_all add: terminations_def exitSignals_def)
  then show ?thesis
    unfolding deliver_def WentOnline event.case
    by (rule follows_trans) (rule follows_dispatch)
next
  case WentOffline
  have "follows s (s\<lparr> onLine := False \<rparr>)"
    by (rule follows_same) (simp_all add: terminations_def exitSignals_def)
  then show ?thesis
    unfolding deliver_def WentOffline event.case
    by (rule follows_trans) (rule follows_dispatch)
next
  case (HeartbeatDue rejects)
  have "follows s (fold (\<lambda>i. heartbeat firstRender rejects) (intervals s) s)"
    by (rule follows_fold) (rule follows_heartbeat)
  then show ?thesis by (simp add: deliver_def HeartbeatDue)
next
  case (ChargingChanged b)
  have "follows s (s\<lparr> batteryCharging := b \<rparr>)"
    by (rule follows_same) (simp_all add: terminations_def exitSignals_def)
  then show ?thesis
    unfolding deliver_def ChargingChanged event.case
    by (rule follows_trans) (rule follows_dispatch)
next
  case (LevelChanged x)
  have "follows s (s\<lparr> batteryLevelValue := toDouble x \<rparr>)"
    by (rule follows_same) (simp_all add: terminations_def exitSignals_def)
  then show ?thesis
    unfolding deliver_def LevelChanged event.case
    by (rule follows_trans) (rule follows_dispatch)
next
  case (TimePassed n)
  have "follows s (s\<lparr> clock := clock s + n \<rparr>)"
    by (rule follows_same) (simp_all add: terminations_def exitSignals_def)
  then show ?thesis by (simp add: deliver_def TimePassed)
next
  case (AgreementToggled b)
  have "follows s (s\<lparr> agreementAccepted := b \<rparr>)"
    by (rule follows_same) (simp_all add: terminations_def exitSignals_def)
  then show ?thesis by (simp add: deliver_def AgreementToggled)
next
  case CancelClicked
  have "currentStep s = Agreement \<Longrightarrow> follows s (emit OnExitSecure s)"
    by (simp add: follows_def tracks_def secured_def)
  then show ?thesis by (simp add: deliver_def CancelClicked)
next
  case (EnterSecureModeClicked env)
  have "currentStep s = Agreement \<Longrightarrow> follows s (startSecureSetup env s)"
    by (simp add: follows_def secured_def tracks_startSecureSetup)
  then show ?thesis by (simp add: deliver_def EnterSecureModeClicked)
next
  case (StartExamClicked throws)
  then show ?thesis by (simp add: deliver_def follows_startExam)
qed

lemma follows_step: "follows s (step ev s)"
  unfolding step_def by (rule follows_trans [OF follows_deliver follows_commit])

lemma follows_run: "follows s (run evs s)"
proof (induction evs arbitrary: s)
  case Nil
  show ?case by simp
next
  case (Cons ev evs)
  have "follows s (step ev s)" by (rule follows_step)
  then show ?case using Cons.IH [of "step ev s"] by (simp add: follows_trans)
qed

lemma mount_counts: "terminations (mount onl fs bat ch lv) = 0" "criticals (mount onl fs bat ch lv) = 0"
  by (simp_all add: mount_def terminations_def criticals_def)

subsection \<open>Every operation commutes with overwriting \<open>noOtherApps\<close>\<close>

lemma setNoOtherApps_fields [simp]:
  "currentStep (setNoOtherApps b s) = currentStep s"
  "isSecureMode (setNoOtherApps b s) = isSecureMode s"
  "cameraStream (setNoOtherApps b s) = cameraStream s"
  "screenStream (setNoOtherApps b s) = screenStream s"
  "violations (setNoOtherApps b s) = violations s"
  "examStartTime (setNoOtherApps b s) = examStartTime s"
  "isLoading (setNoOtherApps b s) = isLoading s"
  "agreementAccepted (setNoOtherApps b s) = agreementAccepted s"
  "violationTimeoutRef (setNoOtherApps b s) = violationTimeoutRef s"
  "heartbeatRef (setNoOtherApps b s) = heartbeatRef s"
  "fullscreenElement (setNoOtherApps b s) = fullscreenElement s"
  "exitFullscreenSupported (setNoOtherApps b s) = exitFullscreenSupported s"
  "docHidden (setNoOtherApps b s) = docHidden s"
  "onLine (setNoOtherApps b s) = onLine s"
  "getBatterySupported (setNoOtherApps b s) = getBatterySupported s"
  "batteryCharging (setNoOtherApps b s) = batteryCharging s"
  "batteryLevelValue (setNoOtherApps b s) = batteryLevelValue s"
  "clock (setNoOtherApps b s) = clock s"
  "listeners (setNoOtherApps b s) = listeners s"
  "intervals (setNoOtherApps b s) = intervals s"
  "nextId (setNoOtherApps b s) = nextId s"
  "depIsSecureMode (setNoOtherApps b s) = depIsSecureMode s"
  "securityCleanup (setNoOtherApps b s) = securityCleanup s"
  "networkCleanup (setNoOtherApps b s) = networkCleanup s"
  "effects (setNoOtherApps b s) = effects s"
  "camera (systemChecks (setNoOtherApps b s)) = camera (systemChecks s)"
  "networkStable (systemChecks (setNoOtherApps b s)) = networkStable (systemChecks s)"
  "noOtherApps (systemChecks (setNoOtherApps b s)) = b"
  "renderClosure (setNoOtherApps b s) = renderClosure s"
  by (simp_all add: setNoOtherApps_def renderClosure_def)

lemma setNoOtherApps_updates [simp]:
  "(setNoOtherApps b s)\<lparr> currentStep := x1 \<rparr> = setNoOtherApps b (s\<lparr> currentStep := x1 \<rparr>)"
  "(setNoOtherApps b s)\<lparr> isSecureMode := x2 \<rparr> = setNoOtherApps b (s\<lparr> isSecureMode := x2 \<rparr>)"
  "(setNoOtherApps b s)\<lparr> cameraStream := x3 \<rparr> = setNoOtherApps b (s\<lparr> cameraStream := x3 \<rparr>)"
  "(setNoOtherApps b s)\<lparr> screenStream := x4 \<rparr> = setNoOtherApps b (s\<lparr> screenStream := x4 \<rparr>)"
  "(setNoOtherApps b s)\<lparr> violations := x5 \<rparr> = setNoOtherApps b (s\<lparr> violations := x5 \<rparr>)"
  "(setNoOtherApps b s)\<lparr> examStartTime := x6 \<rparr> = setNoOtherApps b (s\<lparr> examStartTime := x6 \<rparr>)"
  "(setNoOtherApps b s)\<lparr> isLoading := x7 \<rparr> = setNoOtherApps b (s\<lparr> isLoading := x7 \<rparr>)"
  "(setNoOtherApps b s)\<lparr> agreementAccepted := x8 \<rparr> = setNoOtherApps b (s\<lparr> agreementAccepted := x8 \<rparr>)"
  "(setNoOtherApps b s)\<lparr> heartbeatRef := x9 \<rparr> = setNoOtherApps b (s\<lparr> heartbeatRef := x9 \<rparr>)"
  "(setNoOtherApps b s)\<lparr> fullscreenElement := y1 \<rparr> = setNoOtherApps b (s\<lparr> fullscreenElement := y1 \<rparr>)"
  "(setNoOtherApps b s)\<lparr> docHidden := y2 \<rparr> = setNoOtherApps b (s\<lparr> docHidden := y2 \<rparr>)"
  "(setNoOtherApps b s)\<lparr> onLine := y3 \<rparr> = setNoOtherApps b (s\<lparr> onLine := y3 \<rparr>)"
  "(setNoOtherApps b s)\<lparr> batteryCharging := y4 \<rparr> = setNoOtherApps b (s\<lparr> batteryCharging := y4 \<rparr>)"
  "(setNoOtherApps b s)\<lparr> batteryLevelValue := y5 \<rparr> = setNoOtherApps b (s\<lparr> batteryLevelValue := y5 \<rparr>)"
  "(setNoOtherApps b s)\<lparr> clock := y6 \<rparr> = setNoOtherApps b (s\<lparr> clock := y6 \<rparr>)"
  "(setNoOtherApps b s)\<lparr> listeners := y7 \<rparr> = setNoOtherApps b (s\<lparr> listeners := y7 \<rparr>)"
  "(setNoOtherApps b s)\<lparr> intervals := y8 \<rparr> = setNoOtherApps b (s\<lparr> intervals := y8 \<rparr>)"
  "(setNoOtherApps b s)\<lparr> nextId := y9 \<rparr> = setNoOtherApps b (s\<lparr> nextId := y9 \<rparr>)"
  "(setNoOtherApps b s)\<lparr> depIsSecureMode := z1 \<rparr> = setNoOtherApps b (s\<lparr> depIsSecureMode := z1 \<rparr>)"
  "(setNoOtherApps b s)\<lparr> securityCleanup := z2 \<rparr> = setNoOtherApps b (s\<lparr> securityCleanup := z2 \<rparr>)"
  "(setNoOtherApps b s)\<lparr> networkCleanup := z3 \<rparr> = setNoOtherApps b (s\<lparr> networkCleanup := z3 \<rparr>)"
  "(setNoOtherApps b s)\<lparr> effects := z4 \<rparr> = setNoOtherApps b (s\<lparr> effects := z4 \<rparr>)"
  by (simp_all add: setNoOtherApps_def)

lemma setNoOtherApps_if [simp]:
  "(if p then setNoOtherApps b x else setNoOtherApps b y) = setNoOtherApps b (if p then x else y)"
  by simp

lemma setNoOtherApps_primitives [simp]:
  "emit e (setNoOtherApps b s) = setNoOtherApps b (emit e s)"
  "stopTracks st (setNoOtherApps b s) = setNoOtherApps b (stopTracks st s)"
  "clearInterval i (setNoOtherApps b s) = setNoOtherApps b (clearInterval i s)"
  by (simp_all add: emit_def stopTracks_def clearInterval_def)

lemma setNoOtherApps_cleanup [simp]:
  "cleanupSecureMode c (setNoOtherApps b s) = setNoOtherApps b (cleanupSecureMode c s)"
  by (cases "c_cameraStream c"; cases "c_screenStream c")
    (simp_all add: cleanupSecureMode_def Let_def split del: if_split cong: if_cong)

lemma setNoOtherApps_hst [simp]:
  "handleSecurityTermination c r (setNoOtherApps b s) = setNoOtherApps b (handleSecurityTermination c r s)"
  by (simp add: handleSecurityTermination_def Let_def split del: if_split cong: if_cong)

lemma setNoOtherApps_addViolation [simp]:
  "addViolation c ty sev d (setNoOtherApps b s) = setNoOtherApps b (addViolation c ty sev d s)"
  by (simp add: addViolation_def Let_def split del: if_split cong: if_cong)

lemma setNoOtherApps_checks [simp]:
  "(setNoOtherApps b s)\<lparr> systemChecks := (systemChecks (setNoOtherApps b s))\<lparr> networkStable := x \<rparr> \<rparr> =
     setNoOtherApps b (s\<lparr> systemChecks := (systemChecks s)\<lparr> networkStable := x \<rparr> \<rparr>)"
  "(setNoOtherApps b s)\<lparr> systemChecks := (systemChecks (setNoOtherApps b s))\<lparr> batteryLevel := y \<rparr> \<rparr> =
     setNoOtherApps b (s\<lparr> systemChecks := (systemChecks s)\<lparr> batteryLevel := y \<rparr> \<rparr>)"
  "(setNoOtherApps b s)\<lparr> systemChecks := (systemChecks (setNoOtherApps b s))\<lparr> fullscreen := z \<rparr> \<rparr> =
     setNoOtherApps b (s\<lparr> systemChecks := (systemChecks s)\<lparr> fullscreen := z \<rparr> \<rparr>)"
  "(setNoOtherApps b s)\<lparr> systemChecks := (systemChecks (setNoOtherApps b s))\<lparr> camera := u, microphone := v \<rparr> \<rparr> =
     setNoOtherApps b (s\<lparr> systemChecks := (systemChecks s)\<lparr> camera := u, microphone := v \<rparr> \<rparr>)"
  by (simp_all add: setNoOtherApps_def)

lemma setNoOtherApps_twice [simp]:
  "setNoOtherApps b (setNoOtherApps b' s) = setNoOtherApps b s"
  by (simp add: setNoOtherApps_def)

lemma setNoOtherApps_finalChecks [simp]:
  "finalChecks (setNoOtherApps b s) = finalChecks s"
  by (simp add: finalChecks_def setNoOtherApps_def)

lemma setNoOtherApps_setupFinally [simp]:
  "setupFinally (setNoOtherApps b s) = setNoOtherApps b (setupFinally s)"
  by (simp add: setupFinally_def)

lemma setNoOtherApps_setupFailed [simp]:
  "setupFailed c (setNoOtherApps b s) = setNoOtherApps b (setupFailed c s)"
  by (simp add: setupFailed_def Let_def)

lemma noOtherApps_finalChecks [simp]:
  "noOtherApps (systemChecks (setupFinally (finalChecks s)))"
  by (simp add: setupFinally_def finalChecks_def)

lemma setNoOtherApps_handlers [simp]:
  "handleFullscreenChange c (setNoOtherApps b s) = setNoOtherApps b (handleFullscreenChange c s)"
  "handleVisibilityChange c (setNoOtherApps b s) = setNoOtherApps b (handleVisibilityChange c s)"
  "handleBlur c (setNoOtherApps b s) = setNoOtherApps b (handleBlur c s)"
  "handleKeyDown c e (setNoOtherApps b s) = setNoOtherApps b (handleKeyDown c e s)"
  "handleContextMenu c (setNoOtherApps b s) = setNoOtherApps b (handleContextMenu c s)"
  "handleMouseLeave c (setNoOtherApps b s) = setNoOtherApps b (handleMouseLeave c s)"
  "handleOnline (setNoOtherApps b s) = setNoOtherApps b (handleOnline s)"
  "handleOffline c (setNoOtherApps b s) = setNoOtherApps b (handleOffline c s)"
  "heartbeat c rejects (setNoOtherApps b s) = setNoOtherApps b (heartbeat c rejects s)"
  "updateBatteryStatus c (setNoOtherApps b s) = setNoOtherApps b (updateBatteryStatus c s)"
  by (simp_all add: handleFullscreenChange_def handleVisibilityChange_def handleBlur_def
      handleKeyDown_def handleContextMenu_def handleMouseLeave_def handleOnline_def
      handleOffline_def heartbeat_def updateBatteryStatus_def Let_def)

lemma setNoOtherApps_fire [simp]:
  "fire ev l (setNoOtherApps b s) = setNoOtherApps b (fire ev l s)"
  by (simp add: fire_def split: handler.split event.split)

lemma setNoOtherApps_fold:
  "(\<And>x s. f x (setNoOtherApps b s) = setNoOtherApps b (f x s)) \<Longrightarrow>
   fold f xs (setNoOtherApps b s) = setNoOtherApps b (fold f xs s)"
  by (induction xs arbitrary: s) simp_all

lemma setNoOtherApps_dispatch [simp]:
  "dispatch tg ty ev (setNoOtherApps b s) = setNoOtherApps b (dispatch tg ty ev s)"
  by (simp add: dispatch_def listening_def setNoOtherApps_fold)

lemma setNoOtherApps_effects [simp]:
  "securityEffectCleanup (setNoOtherApps b s) = setNoOtherApps b (securityEffectCleanup s)"
  "networkEffectCleanup (setNoOtherApps b s) = setNoOtherApps b (networkEffectCleanup s)"
  "securityEffect (setNoOtherApps b s) = setNoOtherApps b (securityEffect s)"
  "networkEffect (setNoOtherApps b s) = setNoOtherApps b (networkEffect s)"
  "batteryEffect (setNoOtherApps b s) = setNoOtherApps b (batteryEffect s)"
  by (simp_all add: securityEffectCleanup_alt networkEffectCleanup_alt securityEffect_alt
      networkEffect_alt batteryEffect_alt split: option.split)

lemma setNoOtherApps_commit [simp]:
  "commit (setNoOtherApps b s) = setNoOtherApps b (commit s)"
  by (simp add: commit_def)

lemma setNoOtherApps_startExam [simp]:
  "startExam throws (setNoOtherApps b s) = setNoOtherApps b (startExam throws s)"
  by (simp add: startExam_def Let_def)

lemma setNoOtherApps_startSecureSetup:
  "startSecureSetup env (setNoOtherApps b s) = setNoOtherApps b (startSecureSetup env s) \<or>
   (startSecureSetup env (setNoOtherApps b s) = startSecureSetup env s \<and>
    noOtherApps (systemChecks (startSecureSetup env s)))"
  by (cases "getUserMedia env"; cases "getDisplayMedia env")
    (simp_all add: startSecureSetup_def setupCamera_def cameraDenied_def enterFullscreen_def
      screenShareStep_def setupScreenShare_def Let_def)

lemma commit_noOtherApps [simp]:
  "noOtherApps (systemChecks (commit s)) = noOtherApps (systemChecks s)"
  by (simp add: commit_def batteryEffect_alt updateBatteryStatus_def Let_def)

lemma startExamDisabled_setNoOtherApps [simp]:
  "startExamDisabled (setNoOtherApps b s) = startExamDisabled s"
  by (simp add: startExamDisabled_def)

lemma setNoOtherApps_deliver:
  "deliver ev (setNoOtherApps b s) = setNoOtherApps b (deliver ev s) \<or>
   (deliver ev (setNoOtherApps b s) = deliver ev s \<and> noOtherApps (systemChecks (deliver ev s)))"
proof (cases ev)
  case (EnterSecureModeClicked env)
  then show ?thesis
    using setNoOtherApps_startSecureSetup [of env b s] by (simp add: deliver_def)
next
  case (HeartbeatDue rejects)
  then show ?thesis by (simp add: deliver_def setNoOtherApps_fold)
qed (simp_all add: deliver_def)

lemma setNoOtherApps_step:
  "step ev (setNoOtherApps b s) = setNoOtherApps b (step ev s) \<or>
   (step ev (setNoOtherApps b s) = step ev s \<and> noOtherApps (systemChecks (step ev s)))"
  using setNoOtherApps_deliver [of ev b s] by (auto simp add: step_def)

lemma setNoOtherApps_id: "noOtherApps (systemChecks s) = b \<Longrightarrow> setNoOtherApps b s = s"
  by (simp add: setNoOtherApps_def)

subsection \<open>The step is left by the two buttons only\<close>

lemma fire_currentStep [simp]: "currentStep (fire ev l s) = currentStep s"
  by (simp add: fire_def handleFullscreenChange_def handleVisibilityChange_def handleBlur_def
      handleKeyDown_def handleContextMenu_def handleMouseLeave_def handleOnline_def
      handleOffline_def split: handler.split event.split)

lemma fold_currentStep:
  "(\<And>x s. currentStep (f x s) = currentStep s) \<Longrightarrow> currentStep (fold f xs s) = currentStep s"
  by (induction xs arbitrary: s) simp_all

lemma dispatch_currentStep [simp]: "currentStep (dispatch tg ty ev s) = currentStep s"
  by (simp add: dispatch_def fold_currentStep)

lemma heartbeat_currentStep [simp]: "currentStep (heartbeat c rejects s) = currentStep s"
  by (simp add: heartbeat_def Let_def)

lemma deliver_from_verification:
  "currentStep s = Verification \<Longrightarrow> startExamDisabled s \<Longrightarrow>
   currentStep (deliver ev s) = Verification"
  by (cases ev) (simp_all add: deliver_def fold_currentStep)

subsection \<open>What the termination reads\<close>

lemma cleanup_browser [simp]:
  "exitFullscreenSupported (cleanupSecureMode c s) = exitFullscreenSupported s"
  "fullscreenElement (cleanupSecureMode c s) = fullscreenElement s"
  "heartbeatRef (cleanupSecureMode c s) = heartbeatRef s"
  "violationTimeoutRef (cleanupSecureMode c s) = violationTimeoutRef s"
  "isLoading (cleanupSecureMode c s) = isLoading s"
  by (simp_all add: cleanupSecureMode_def Let_def stopTracks_def emit_def clearInterval_def
      split: option.split)

lemma cleanup_cameraStream:
  "cameraStream (cleanupSecureMode c s) = (if c_cameraStream c = None then cameraStream s else None)"
  by (simp add: cleanupSecureMode_def Let_def stopTracks_def emit_def clearInterval_def
      split: option.split)

lemma hst_cameraStream:
  "cameraStream (handleSecurityTermination c r s) =
     (if c_cameraStream c = None then cameraStream s else None)"
  by (simp add: handleSecurityTermination_def Let_def cleanup_cameraStream emit_def)

lemma addViolation_browser [simp]:
  "exitFullscreenSupported (addViolation c ty sev d s) = exitFullscreenSupported s"
  "fullscreenElement (addViolation c ty sev d s) = fullscreenElement s"
  "heartbeatRef (addViolation c ty sev d s) = heartbeatRef s"
  "violationTimeoutRef (addViolation c ty sev d s) = violationTimeoutRef s"
  by (simp_all add: addViolation_def Let_def emit_def)

lemma addViolation_cameraStream:
  "cameraStream (addViolation firstRender ty sev d s) = cameraStream s"
  by (simp add: addViolation_def Let_def emit_def hst_cameraStream firstRender_def)

lemma cleanupEffects_update [simp]:
  "cleanupEffects c (s\<lparr> isLoading := b \<rparr>) = cleanupEffects c s"
  "cleanupEffects c (s\<lparr> currentStep := st \<rparr>) = cleanupEffects c s"
  "cleanupEffects c (s\<lparr> cameraStream := cs \<rparr>) = cleanupEffects c s"
  "cleanupEffects c (s\<lparr> effects := es \<rparr>) = cleanupEffects c s"
  "cleanupEffects c (emit e s) = cleanupEffects c s"
  "cleanupEffects c (addViolation c' ty sev d s) = cleanupEffects c s"
  by (simp_all add: cleanupEffects_def emit_def)

lemma terminationEffects_update [simp]:
  "terminationEffects c r (s\<lparr> isLoading := b \<rparr>) = terminationEffects c r s"
  "terminationEffects c r (s\<lparr> currentStep := st \<rparr>) = terminationEffects c r s"
  "terminationEffects c r (s\<lparr> cameraStream := cs \<rparr>) = terminationEffects c r s"
  "terminationEffects c r (s\<lparr> effects := es \<rparr>) = terminationEffects c r s"
  "terminationEffects c r (emit e s) = terminationEffects c r s"
  by (simp_all add: terminationEffects_def emit_def)

lemma setupFailed_effects:
  "effects (setupFailed c s) =
     effects s @ [ConsoleError ''Secure setup failed:''] @ cleanupEffects c s @
     [Alert ''Failed to setup secure environment. Please try again.'']"
  by (simp add: setupFailed_def Let_def emit_def cleanup_effects)

lemma setupFailed_fields [simp]:
  "currentStep (setupFailed c s) = Agreement"
  "isSecureMode (setupFailed c s) = False"
  "violations (setupFailed c s) = violations s"
  "cameraStream (setupFailed c s) = (if c_cameraStream c = None then cameraStream s else None)"
  by (simp_all add: setupFailed_def Let_def emit_def cleanup_cameraStream)

lemma setupFinally_fields [simp]:
  "currentStep (setupFinally s) = currentStep s"
  "isSecureMode (setupFinally s) = isSecureMode s"
  "violations (setupFinally s) = violations s"
  "effects (setupFinally s) = effects s"
  "cameraStream (setupFinally s) = cameraStream s"
  "isLoading (setupFinally s) = False"
  by (simp_all add: setupFinally_def)

lemma batteryEffect_violations:
  "isSecureMode s \<Longrightarrow> getBatterySupported s \<Longrightarrow>
   violations (batteryEffect s) =
     violations s @
       (if \<not> batteryCharging s \<and> toDouble (batteryLevelValue s * 100) < 20
        then [violation ''battery-low'' (clock s) Warning
                (''Battery level low: '' @ toFixed0 (toDouble (batteryLevelValue s * 100)) @ ''%'')]
        else [])"
  by (simp add: batteryEffect_alt updateBatteryStatus_violations)

lemma batteryEffect_listeners:
  "isSecureMode s \<Longrightarrow> getBatterySupported s \<Longrightarrow>
   listeners (batteryEffect s) = fold addListener (batteryListeners (nextId s)) (listeners s)"
  by (simp add: batteryEffect_alt)

subsection \<open>The second attempt, evaluated\<close>

lemma exampleRetry_eq:
  "exampleRetry =
     \<lparr> currentStep = Agreement, isSecureMode = False,
       cameraStream = Some (MediaStream [1, 2]), screenStream = None,
       violations = [violation ''fullscreen-denied'' 0 Critical ''Fullscreen mode denied''],
       systemChecks = \<lparr> camera = True, microphone = True, fullscreen = False,
         networkStable = False, batteryLevel = False, noOtherApps = False \<rparr>,
       examStartTime = None, isLoading = False, agreementAccepted = True,
       violationTimeoutRef = None, heartbeatRef = None,
       fullscreenElement = False, exitFullscreenSupported = True, docHidden = False,
       onLine = True, getBatterySupported = True, batteryCharging = False,
       batteryLevelValue = toDouble (15 / 100), clock = 0, listeners = [], intervals = [],
       nextId = 1, depIsSecureMode = False, securityCleanup = None, networkCleanup = None,
       effects =
         [ConsoleError ''Fullscreen failed:'',
          OnSecurityViolation ''Fullscreen mode denied'' Critical,
          Alert (terminationMessage ''Fullscreen mode denied''),
          OnExitSecure, ConsoleError ''Secure setup failed:'',
          Alert ''Failed to setup secure environment. Please try again.''] \<rparr>"
  by code_simp

section \<open>Release of the resources\<close>

text \<open>
  C4 (as amended). \<open>cleanupSecureMode\<close> is a total function with no failing branch, so a
  call, a second call in a row, and a call on a session that never reached the setup all
  return. None of them touches the system checks: they are left as they were, which is
  all false on a freshly mounted component and whatever the setup and the monitors had
  set otherwise.
\<close>

theorem cleanup_keeps_system_checks:
  "systemChecks (cleanupSecureMode c s) = systemChecks s \<and>
   systemChecks (cleanupSecureMode c' (cleanupSecureMode c s)) = systemChecks s \<and>
   systemChecks (cleanupSecureMode c (mount onl fs bat ch lv)) = initialChecks"
  by (simp add: mount_def)

theorem cleanup_keeps_system_checks_witness:
  "systemChecks (cleanupSecureMode (renderClosure exampleSecure)
      (cleanupSecureMode (renderClosure exampleSecure) exampleSecure)) = systemChecks exampleSecure \<and>
   systemChecks (cleanupSecureMode firstRender exampleMount) = initialChecks"
  using cleanup_keeps_system_checks [of "renderClosure exampleSecure" exampleSecure
      "renderClosure exampleSecure" True True True False "15 / 100"]
    cleanup_keeps_system_checks [of firstRender exampleSecure firstRender True True True False "15 / 100"]
  by (simp add: exampleMount_def)

text \<open>
  C4 as stated fails: after a setup that succeeded, two calls of \<open>cleanupSecureMode\<close> in a
  row leave the camera check true.
\<close>

theorem cleanup_resets_flags_counterexample:
  "camera (systemChecks (cleanupSecureMode (renderClosure exampleSecure)
      (cleanupSecureMode (renderClosure exampleSecure) exampleSecure)))"
  by code_simp

section \<open>Failure of the camera\<close>

text \<open>
  C5. When the camera cannot be acquired during the setup (the request is rejected, or
  the preview cannot be played), \<open>setupCamera\<close> resolves with \<open>false\<close> instead of
  rejecting, and the log grows by exactly one violation, the critical \<open>camera-denied\<close>.
  The step goes from \<open>Setup\<close> back to \<open>Agreement\<close>, and the cleanup has run by then: the
  side effects are, in this order, those of the violation and of the termination it
  starts, then those of the failure handler, which are the effects of
  \<open>cleanupSecureMode\<close> in the closure of the click between its console message and its
  alert. A camera stream held at the click is stopped there and dropped from the state.
\<close>

theorem camera_failure_returns_to_agreement:
  assumes "agreementAccepted s"
    and "getUserMedia env = None \<or> (cameraRefCurrent env \<and> \<not> playResolves env)"
  shows "\<exists>s2. setupCamera firstRender env (s\<lparr> isLoading := True, currentStep := Setup \<rparr>) = Resolved False s2
           \<and> currentStep s2 = Setup
           \<and> startSecureSetup env s = setupFinally (setupFailed (renderClosure s) s2)
           \<and> currentStep (startSecureSetup env s) = Agreement
           \<and> \<not> isSecureMode (startSecureSetup env s)
           \<and> \<not> isLoading (startSecureSetup env s)
           \<and> violations (startSecureSetup env s) =
               violations s @ [violation ''camera-denied'' (clock s) Critical
                                 ''Camera access denied or unavailable'']
           \<and> effects (startSecureSetup env s) =
               effects s @
               [ConsoleError ''Camera setup failed:'',
                OnSecurityViolation ''Camera access denied or unavailable'' Critical] @
               terminationEffects firstRender ''Camera access denied or unavailable'' s @
               [ConsoleError ''Secure setup failed:''] @
               cleanupEffects (renderClosure s) s @
               [Alert ''Failed to setup secure environment. Please try again.'']
           \<and> (cameraStream s \<noteq> None \<longrightarrow> cameraStream (startSecureSetup env s) = None)"
proof -
  let ?d = "''Camera access denied or unavailable''"
  define s1 where "s1 = s\<lparr> isLoading := True, currentStep := Setup \<rparr>"
  define s1' where "s1' = (case getUserMedia env of None \<Rightarrow> s1
                           | Some stream \<Rightarrow> s1\<lparr> cameraStream := Some stream \<rparr>)"
  define s2 where "s2 = addViolation firstRender ''camera-denied'' Critical ?d
                          (emit (ConsoleError ''Camera setup failed:'') s1')"
  have cam: "setupCamera firstRender env s1 = Resolved False s2"
    using assms(2)
    by (cases "getUserMedia env")
      (simp_all add: setupCamera_def cameraDenied_def Let_def s2_def s1'_def)
  have whole: "startSecureSetup env s = setupFinally (setupFailed (renderClosure s) s2)"
    using assms(1) cam by (simp add: startSecureSetup_def Let_def s1_def)
  have step2: "currentStep s2 = Setup"
    by (cases "getUserMedia env") (simp_all add: s2_def s1'_def s1_def)
  have te: "terminationEffects firstRender ?d s1' = terminationEffects firstRender ?d s"
    by (cases "getUserMedia env") (simp_all add: s1'_def s1_def)
  have ce: "cleanupEffects (renderClosure s) s2 = cleanupEffects (renderClosure s) s"
    by (cases "getUserMedia env") (simp_all add: s2_def s1'_def s1_def)
  have e1: "effects s1' = effects s"
    by (cases "getUserMedia env") (simp_all add: s1'_def s1_def)
  have v1: "violations s1' = violations s" "clock s1' = clock s"
    by (cases "getUserMedia env"; simp add: s1'_def s1_def)+
  have e2: "effects s2 = effects s @ [ConsoleError ''Camera setup failed:'',
                OnSecurityViolation ?d Critical] @ terminationEffects firstRender ?d s"
    by (simp add: s2_def addViolation_effects te emit_def e1)
  have v2: "violations s2 = violations s @ [violation ''camera-denied'' (clock s) Critical ?d]"
    by (simp add: s2_def addViolation_violations v1 emit_def)
  have c2: "c_cameraStream (renderClosure s) = cameraStream s"
    by (simp add: renderClosure_def)
  have "currentStep (startSecureSetup env s) = Agreement"
    "\<not> isSecureMode (startSecureSetup env s)"
    "\<not> isLoading (startSecureSetup env s)"
    "violations (startSecureSetup env s) =
       violations s @ [violation ''camera-denied'' (clock s) Critical ?d]"
    "effects (startSecureSetup env s) =
               effects s @
               [ConsoleError ''Camera setup failed:'', OnSecurityViolation ?d Critical] @
               terminationEffects firstRender ?d s @
               [ConsoleError ''Secure setup failed:''] @
               cleanupEffects (renderClosure s) s @
               [Alert ''Failed to setup secure environment. Please try again.'']"
    "cameraStream s \<noteq> None \<longrightarrow> cameraStream (startSecureSetup env s) = None"
    using c2 by (simp_all add: whole v2 setupFailed_effects e2 ce)
  with cam whole step2 show ?thesis
    unfolding s1_def by blast
qed

theorem camera_failure_returns_to_agreement_witness:
  "agreementAccepted exampleRetry \<and> getUserMedia cameraDeniedEnv = None \<and>
   cameraStream exampleRetry = Some (MediaStream [1, 2]) \<and>
   currentStep (startSecureSetup cameraDeniedEnv exampleRetry) = Agreement \<and>
   violations (startSecureSetup cameraDeniedEnv exampleRetry) =
     violations exampleRetry @
       [violation ''camera-denied'' 0 Critical ''Camera access denied or unavailable''] \<and>
   effects (startSecureSetup cameraDeniedEnv exampleRetry) =
     effects exampleRetry @
       [ConsoleError ''Camera setup failed:'',
        OnSecurityViolation ''Camera access denied or unavailable'' Critical,
        Alert (terminationMessage ''Camera access denied or unavailable''),
        OnExitSecure,
        ConsoleError ''Secure setup failed:'',
        TrackStop 1, TrackStop 2,
        Alert ''Failed to setup secure environment. Please try again.''] \<and>
   cameraStream (startSecureSetup cameraDeniedEnv exampleRetry) = None"
proof -
  have h1: "agreementAccepted exampleRetry" by (simp add: exampleRetry_eq)
  have h2: "getUserMedia cameraDeniedEnv = None" by code_simp
  have h3: "cameraStream exampleRetry = Some (MediaStream [1, 2])" by (simp add: exampleRetry_eq)
  have h4: "clock exampleRetry = 0" by (simp add: exampleRetry_eq)
  have h5: "terminationEffects firstRender ''Camera access denied or unavailable'' exampleRetry =
      [Alert (terminationMessage ''Camera access denied or unavailable''), OnExitSecure]"
    by (simp add: exampleRetry_eq terminationEffects_def cleanupEffects_def streamStops_def
        firstRender_def)
  have h6: "cleanupEffects (renderClosure exampleRetry) exampleRetry = [TrackStop 1, TrackStop 2]"
    by (simp add: exampleRetry_eq cleanupEffects_def streamStops_def renderClosure_def)
  from h2 have h2': "getUserMedia cameraDeniedEnv = None \<or>
      (cameraRefCurrent cameraDeniedEnv \<and> \<not> playResolves cameraDeniedEnv)" by simp
  from camera_failure_returns_to_agreement [OF h1 h2']
  have a: "currentStep (startSecureSetup cameraDeniedEnv exampleRetry) = Agreement"
    and b: "violations (startSecureSetup cameraDeniedEnv exampleRetry) =
      violations exampleRetry @
        [violation ''camera-denied'' (clock exampleRetry) Critical ''Camera access denied or unavailable'']"
    and c: "effects (startSecureSetup cameraDeniedEnv exampleRetry) =
      effects exampleRetry @
        [ConsoleError ''Camera setup failed:'',
         OnSecurityViolation ''Camera access denied or unavailable'' Critical] @
        terminationEffects firstRender ''Camera access denied or unavailable'' exampleRetry @
        [ConsoleError ''Secure setup failed:''] @
        cleanupEffects (renderClosure exampleRetry) exampleRetry @
        [Alert ''Failed to setup secure environment. Please try again.'']"
    and d: "cameraStream exampleRetry \<noteq> None \<longrightarrow>
      cameraStream (startSecureSetup cameraDeniedEnv exampleRetry) = None"
    by blast+
  from d h3 have d': "cameraStream (startSecureSetup cameraDeniedEnv exampleRetry) = None" by simp
  from b h4 have b': "violations (startSecureSetup cameraDeniedEnv exampleRetry) =
      violations exampleRetry @
        [violation ''camera-denied'' 0 Critical ''Camera access denied or unavailable'']" by simp
  from c have c': "effects (startSecureSetup cameraDeniedEnv exampleRetry) =
     effects exampleRetry @
       [ConsoleError ''Camera setup failed:'',
        OnSecurityViolation ''Camera access denied or unavailable'' Critical,
        Alert (terminationMessage ''Camera access denied or unavailable''),
        OnExitSecure,
        ConsoleError ''Secure setup failed:'',
        TrackStop 1, TrackStop 2,
        Alert ''Failed to setup secure environment. Please try again.'']"
    unfolding h5 h6 by simp
  show ?thesis using h1 h2 h3 a b' c' d' by blast
qed

section \<open>Screen sharing during the setup\<close>

text \<open>
  C1, evaluated on the code. The agreement is accepted, the camera and the fullscreen
  request succeed and the screen capture is refused. \<open>setupScreenShare\<close> catches the
  refusal itself: it records the critical violation \<open>screen-denied\<close>, which runs the
  termination (alert, cleanup, exit signal), and resolves with \<open>false\<close>. The rejection
  handler of \<open>startSecureSetup\<close> that would record the warning \<open>screen-share-optional\<close>
  is never reached, and the setup goes on to the verification step.
\<close>

theorem screen_share_denial_is_critical:
  "violations (startSecureSetup screenDeniedEnv exampleAccepted) =
     [violation ''screen-denied'' 0 Critical ''Screen sharing denied''] \<and>
   currentStep (startSecureSetup screenDeniedEnv exampleAccepted) = Verification \<and>
   effects (startSecureSetup screenDeniedEnv exampleAccepted) =
     [ConsoleError ''Screen share failed:'',
      OnSecurityViolation ''Screen sharing denied'' Critical,
      Alert (terminationMessage ''Screen sharing denied''),
      ExitFullscreen, OnExitSecure]"
  by code_simp

section \<open>Termination\<close>

text \<open>
  C3 (as amended). \<open>handleSecurityTermination\<close> has no guard and no failing branch.
  Every call appends the whole sequence of its side effects: the alert, the effects of
  \<open>cleanupSecureMode\<close> (a stop of every track of the streams its closure holds, the
  request to leave fullscreen, the clearing of the heartbeat) and one exit signal. A second
  call right after the first repeats the same sequence, so two calls send two exit signals
  and stop each track of the closure twice.
\<close>

theorem termination_repeats_on_every_call:
  "effects (handleSecurityTermination c r s) = effects s @ terminationEffects c r s \<and>
   effects (handleSecurityTermination c r (handleSecurityTermination c r s)) =
     effects s @ terminationEffects c r s @ terminationEffects c r s \<and>
   exitSignals (handleSecurityTermination c r (handleSecurityTermination c r s)) = exitSignals s + 2 \<and>
   trackStops t (handleSecurityTermination c r (handleSecurityTermination c r s)) =
     trackStops t s + 2 * count_list (streamStops (c_cameraStream c) @ streamStops (c_screenStream c)) (TrackStop t)"
proof -
  have e1: "\<And>s. effects (handleSecurityTermination c r s) = effects s @ terminationEffects c r s"
    by (simp add: hst_effects terminationEffects_def)
  have e2: "effects (handleSecurityTermination c r (handleSecurityTermination c r s)) =
     effects s @ terminationEffects c r s @ terminationEffects c r s"
    by (simp add: e1 terminationEffects_hst)
  have x: "length (filter (\<lambda>e. e = OnExitSecure) (terminationEffects c r s)) = 1"
    by (auto simp add: terminationEffects_def cleanupEffects_def streamStops_def filter_map o_def
        split: option.split)
  have t: "count_list (terminationEffects c r s) (TrackStop t) =
      count_list (streamStops (c_cameraStream c) @ streamStops (c_screenStream c)) (TrackStop t)"
    by (simp add: terminationEffects_def cleanupEffects_def)
  show ?thesis
    using e1 e2 x t by (simp add: exitSignals_def trackStops_def)
qed

theorem termination_repeats_on_every_call_witness:
  "exitSignals (handleSecurityTermination (renderClosure exampleSecure) ''operator abort''
      (handleSecurityTermination (renderClosure exampleSecure) ''operator abort'' exampleSecure)) =
     exitSignals exampleSecure + 2"
  using termination_repeats_on_every_call [of "renderClosure exampleSecure" "''operator abort''" exampleSecure 1]
  by simp

text \<open>
  C3 as stated fails: on a session in secure mode, one call sends one exit signal and
  stops track 1 once, a second call in a row sends a second exit signal and stops the
  track again; \<open>startExam\<close> itself terminates twice in a row when \<open>onStartExam\<close> throws.
\<close>

theorem termination_idempotent_counterexample:
  "exitSignals (handleSecurityTermination (renderClosure exampleSecure) ''operator abort'' exampleSecure) = 1 \<and>
   trackStops 1 (handleSecurityTermination (renderClosure exampleSecure) ''operator abort'' exampleSecure) = 1 \<and>
   exitSignals (handleSecurityTermination (renderClosure exampleSecure) ''operator abort''
      (handleSecurityTermination (renderClosure exampleSecure) ''operator abort'' exampleSecure)) = 2 \<and>
   trackStops 1 (handleSecurityTermination (renderClosure exampleSecure) ''operator abort''
      (handleSecurityTermination (renderClosure exampleSecure) ''operator abort'' exampleSecure)) = 2 \<and>
   exitSignals (startExam True exampleSecure) = 2"
  by code_simp

section \<open>Blocked keys\<close>

text \<open>
  C8 (as amended). The blocked set of the code is the set of the specification together
  with \<open>Alt+Tab\<close>. A key press whose key or whose combination (\<open>Ctrl+\<close>, \<open>Shift+\<close>,
  \<open>Alt+\<close> in this order, then the key) is in that set records exactly one warning
  \<open>blocked-key\<close> and cancels the default action and the propagation of the event; any
  other key press leaves everything as it was. With the one keydown listener of secure
  mode attached, a key press is one call of the handler.
\<close>

theorem blocked_key_handling:
  "set blockedKeys = set specBlockedKeys \<union> {''Alt+Tab''} \<and>
   (key e \<in> set blockedKeys \<or> combo e \<in> set blockedKeys \<longrightarrow>
      violations (handleKeyDown c e s) =
        violations s @ [violation ''blocked-key'' (clock s) Warning
                          (''Attempted to use blocked key: '' @ combo e)] \<and>
      effects (handleKeyDown c e s) =
        effects s @ [PreventDefault, StopPropagation,
                     OnSecurityViolation (''Attempted to use blocked key: '' @ combo e) Warning]) \<and>
   (\<not> (key e \<in> set blockedKeys \<or> combo e \<in> set blockedKeys) \<longrightarrow> handleKeyDown c e s = s) \<and>
   (listening Document Keydown s = [l] \<and> l_handler l = HandleKeyDown \<longrightarrow>
      deliver (KeyPressed e) s = handleKeyDown firstRender e s)"
proof -
  have a: "set blockedKeys = set specBlockedKeys \<union> {''Alt+Tab''}"
    by (simp add: blockedKeys_def specBlockedKeys_def insert_commute)
  have b: "listening Document Keydown s = [l] \<and> l_handler l = HandleKeyDown \<longrightarrow>
      deliver (KeyPressed e) s = handleKeyDown firstRender e s"
    by (simp add: deliver_def dispatch_def fire_def)
  show ?thesis
    unfolding handleKeyDown_def
    using b by (simp add: a addViolation_violations addViolation_warning_effects emit_def
        handleKeyDown_def)
qed

theorem blocked_key_handling_witness:
  "combo ctrlShiftI \<in> set blockedKeys \<and>
   violations (handleKeyDown firstRender ctrlShiftI exampleSecure) =
     violations exampleSecure @ [violation ''blocked-key'' (clock exampleSecure) Warning
        (''Attempted to use blocked key: '' @ combo ctrlShiftI)] \<and>
   \<not> (key \<lparr> key = ''a'', ctrlKey = False, shiftKey = False, altKey = False \<rparr> \<in> set blockedKeys \<or>
      combo \<lparr> key = ''a'', ctrlKey = False, shiftKey = False, altKey = False \<rparr> \<in> set blockedKeys) \<and>
   handleKeyDown firstRender \<lparr> key = ''a'', ctrlKey = False, shiftKey = False, altKey = False \<rparr> exampleSecure
     = exampleSecure \<and>
   listening Document Keydown exampleSecure = [mkListener Document Keydown True HandleKeyDown 1] \<and>
   l_handler (mkListener Document Keydown True HandleKeyDown 1) = HandleKeyDown \<and>
   deliver (KeyPressed ctrlShiftI) exampleSecure = handleKeyDown firstRender ctrlShiftI exampleSecure"
proof -
  have h1: "combo ctrlShiftI \<in> set blockedKeys" by code_simp
  have h2: "\<not> (key \<lparr> key = ''a'', ctrlKey = False, shiftKey = False, altKey = False \<rparr> \<in> set blockedKeys \<or>
      combo \<lparr> key = ''a'', ctrlKey = False, shiftKey = False, altKey = False \<rparr> \<in> set blockedKeys)"
    by code_simp
  have h3: "listening Document Keydown exampleSecure = [mkListener Document Keydown True HandleKeyDown 1]"
    by code_simp
  have h4: "l_handler (mkListener Document Keydown True HandleKeyDown 1) = HandleKeyDown"
    by (simp add: mkListener_def)
  show ?thesis
    using h1 h2 h3 h4
      blocked_key_handling [of ctrlShiftI firstRender exampleSecure
        "mkListener Document Keydown True HandleKeyDown 1"]
      blocked_key_handling [of "\<lparr> key = ''a'', ctrlKey = False, shiftKey = False, altKey = False \<rparr>"
        firstRender exampleSecure "mkListener Document Keydown True HandleKeyDown 1"]
    by blast
qed

text \<open>
  C8 as stated fails: \<open>Tab\<close> pressed with \<open>Alt\<close> matches neither form of the set the
  claim lists, and is recorded and suppressed all the same.
\<close>

theorem alt_tab_counterexample:
  "key altTab \<notin> set specBlockedKeys \<and> combo altTab \<notin> set specBlockedKeys \<and>
   length (violations (step (KeyPressed altTab) exampleSecure)) = length (violations exampleSecure) + 1 \<and>
   type (last (violations (step (KeyPressed altTab) exampleSecure))) = ''blocked-key'' \<and>
   PreventDefault \<in> set (effects (step (KeyPressed altTab) exampleSecure))"
  by code_simp

text \<open>
  C9. On the verification screen the click on the start button reaches \<open>startExam\<close>
  only when the button is not disabled. So the step can only become \<open>Exam\<close> when the
  camera check and the network check are both true; while one of them is false the button
  is disabled, the click changes nothing, and no other event leaves the step
  \<open>Verification\<close> either. With both checks true and nothing loading the click does start
  the exam.
\<close>

theorem start_exam_gated_by_checks:
  assumes "currentStep s = Verification"
  shows "(currentStep (step (StartExamClicked t) s) = Exam \<longrightarrow>
            camera (systemChecks s) \<and> networkStable (systemChecks s)) \<and>
         (\<not> camera (systemChecks s) \<or> \<not> networkStable (systemChecks s) \<longrightarrow>
            startExamDisabled s \<and> deliver (StartExamClicked t) s = s \<and>
            currentStep (step (StartExamClicked t) s) = Verification) \<and>
         (\<not> camera (systemChecks s) \<or> \<not> networkStable (systemChecks s) \<longrightarrow>
            currentStep (step ev s) = Verification) \<and>
         (camera (systemChecks s) \<and> networkStable (systemChecks s) \<and> \<not> isLoading s \<longrightarrow>
            currentStep (step (StartExamClicked t) s) = Exam)"
proof -
  have "\<not> camera (systemChecks s) \<or> \<not> networkStable (systemChecks s) \<longrightarrow>
      currentStep (step ev s) = Verification"
    using assms by (simp add: step_def deliver_from_verification startExamDisabled_def)
  then show ?thesis
    using assms
    by (auto simp add: step_def deliver_def startExamDisabled_def startExam_def Let_def emit_def)
qed

theorem start_exam_gated_by_checks_witness:
  "currentStep exampleSecure = Verification \<and>
   camera (systemChecks exampleSecure) \<and> networkStable (systemChecks exampleSecure) \<and>
   \<not> isLoading exampleSecure \<and>
   currentStep (step (StartExamClicked False) exampleSecure) = Exam \<and>
   currentStep (step WentOffline exampleSecure) = Verification \<and>
   \<not> networkStable (systemChecks (step WentOffline exampleSecure)) \<and>
   startExamDisabled (step WentOffline exampleSecure) \<and>
   currentStep (step (StartExamClicked False) (step WentOffline exampleSecure)) = Verification \<and>
   currentStep (step WindowBlurred (step WentOffline exampleSecure)) = Verification"
proof -
  have h1: "currentStep exampleSecure = Verification" by code_simp
  have h2: "camera (systemChecks exampleSecure) \<and> networkStable (systemChecks exampleSecure) \<and>
   \<not> isLoading exampleSecure" by code_simp
  have h3: "currentStep (step WentOffline exampleSecure) = Verification" by code_simp
  have h4: "\<not> networkStable (systemChecks (step WentOffline exampleSecure))" by code_simp
  show ?thesis
    using h1 h2 h3 h4 start_exam_gated_by_checks [OF h1, of False WindowBlurred]
      start_exam_gated_by_checks [OF h3, of False WindowBlurred]
    by blast
qed

text \<open>
  C6 (as amended). \<open>updateBatteryStatus\<close> keeps no memory of the last reading: on every
  call it records the warning \<open>battery-low\<close> when the battery is not charging and the
  double product \<open>battery.level * 100\<close> is below 20, whatever the reading before was.
  The battery effect makes one such call, the initial reading, when secure mode is entered
  on a browser with the battery API, and attaches the handler for the two battery events.
  With the battery listener of one entry into secure mode attached, every change of the
  level and every change of the charging state is one more such call.
\<close>

theorem battery_low_on_every_low_reading:
  "violations (updateBatteryStatus c s) =
     violations s @
       (if \<not> batteryCharging s \<and> toDouble (batteryLevelValue s * 100) < 20
        then [violation ''battery-low'' (clock s) Warning
                (''Battery level low: '' @ toFixed0 (toDouble (batteryLevelValue s * 100)) @ ''%'')]
        else []) \<and>
   (isSecureMode s \<and> getBatterySupported s \<longrightarrow>
      violations (batteryEffect s) =
        violations s @
          (if \<not> batteryCharging s \<and> toDouble (batteryLevelValue s * 100) < 20
           then [violation ''battery-low'' (clock s) Warning
                   (''Battery level low: '' @ toFixed0 (toDouble (batteryLevelValue s * 100)) @ ''%'')]
           else []) \<and>
      listeners (batteryEffect s) = fold addListener (batteryListeners (nextId s)) (listeners s)) \<and>
   (listening BatteryManager Levelchange s = [l] \<and> l_handler l = UpdateBatteryStatus \<longrightarrow>
      deliver (LevelChanged x) s =
        updateBatteryStatus firstRender (s\<lparr> batteryLevelValue := toDouble x \<rparr>)) \<and>
   (listening BatteryManager Chargingchange s = [l] \<and> l_handler l = UpdateBatteryStatus \<longrightarrow>
      deliver (ChargingChanged b) s = updateBatteryStatus firstRender (s\<lparr> batteryCharging := b \<rparr>))"
  by (simp add: updateBatteryStatus_violations batteryEffect_violations batteryEffect_listeners
      deliver_def dispatch_def fire_def)

theorem battery_low_on_every_low_reading_witness:
  "isSecureMode (startSecureSetup exampleEnv exampleAccepted) \<and>
   getBatterySupported (startSecureSetup exampleEnv exampleAccepted) \<and>
   violations (batteryEffect (startSecureSetup exampleEnv exampleAccepted)) =
     [violation ''battery-low'' 0 Warning ''Battery level low: 15%''] \<and>
   listening BatteryManager Levelchange exampleSecure =
     [mkListener BatteryManager Levelchange False UpdateBatteryStatus 4] \<and>
   l_handler (mkListener BatteryManager Levelchange False UpdateBatteryStatus 4) = UpdateBatteryStatus \<and>
   deliver (LevelChanged (14 / 100)) exampleSecure =
     updateBatteryStatus firstRender (exampleSecure\<lparr> batteryLevelValue := toDouble (14 / 100) \<rparr>) \<and>
   listening BatteryManager Chargingchange exampleSecure =
     [mkListener BatteryManager Chargingchange False UpdateBatteryStatus 4] \<and>
   l_handler (mkListener BatteryManager Chargingchange False UpdateBatteryStatus 4) = UpdateBatteryStatus \<and>
   deliver (ChargingChanged False) exampleSecure =
     updateBatteryStatus firstRender (exampleSecure\<lparr> batteryCharging := False \<rparr>)"
proof -
  have g: "isSecureMode (startSecureSetup exampleEnv exampleAccepted) \<and>
      getBatterySupported (startSecureSetup exampleEnv exampleAccepted)" by code_simp
  have v: "violations (startSecureSetup exampleEnv exampleAccepted) @
      (if \<not> batteryCharging (startSecureSetup exampleEnv exampleAccepted) \<and>
          toDouble (batteryLevelValue (startSecureSetup exampleEnv exampleAccepted) * 100) < 20
       then [violation ''battery-low'' (clock (startSecureSetup exampleEnv exampleAccepted)) Warning
               (''Battery level low: '' @
                toFixed0 (toDouble (batteryLevelValue (startSecureSetup exampleEnv exampleAccepted) * 100)) @
                ''%'')]
       else []) = [violation ''battery-low'' 0 Warning ''Battery level low: 15%'']" by code_simp
  have h1: "listening BatteryManager Levelchange exampleSecure =
     [mkListener BatteryManager Levelchange False UpdateBatteryStatus 4]" by code_simp
  have h2: "l_handler (mkListener BatteryManager Levelchange False UpdateBatteryStatus 4) = UpdateBatteryStatus"
    by (simp add: mkListener_def)
  have h3: "listening BatteryManager Chargingchange exampleSecure =
     [mkListener BatteryManager Chargingchange False UpdateBatteryStatus 4]" by code_simp
  have h4: "l_handler (mkListener BatteryManager Chargingchange False UpdateBatteryStatus 4) = UpdateBatteryStatus"
    by (simp add: mkListener_def)
  from g battery_low_on_every_low_reading [of firstRender "startSecureSetup exampleEnv exampleAccepted"
        "mkListener BatteryManager Levelchange False UpdateBatteryStatus 4" "14 / 100" False]
  have i: "violations (batteryEffect (startSecureSetup exampleEnv exampleAccepted)) =
     [violation ''battery-low'' 0 Warning ''Battery level low: 15%'']"
    unfolding v [symmetric] by blast
  show ?thesis
    using g i h1 h2 h3 h4
      battery_low_on_every_low_reading [of firstRender exampleSecure
        "mkListener BatteryManager Levelchange False UpdateBatteryStatus 4" "14 / 100" False]
      battery_low_on_every_low_reading [of firstRender exampleSecure
        "mkListener BatteryManager Chargingchange False UpdateBatteryStatus 4" "14 / 100" False]
    by blast
qed

text \<open>
  C6 as stated fails: secure mode is entered with the battery at 15 percent and not
  charging, the level then changes to 14 and to 13 percent. The low condition holds without
  interruption, and each of the two changes records a further \<open>battery-low\<close> warning.
\<close>

theorem battery_low_once_counterexample:
  "lowBattery exampleSecure \<and> batteryLowCount exampleSecure = 1 \<and>
   lowBattery (step (LevelChanged (14 / 100)) exampleSecure) \<and>
   batteryLowCount (step (LevelChanged (14 / 100)) exampleSecure) = 2 \<and>
   lowBattery (step (LevelChanged (13 / 100)) (step (LevelChanged (14 / 100)) exampleSecure)) \<and>
   batteryLowCount (step (LevelChanged (13 / 100)) (step (LevelChanged (14 / 100)) exampleSecure)) = 3"
  by code_simp

text \<open>
  C7, evaluated on the code. A session in secure mode, on a browser with the battery API,
  is terminated by a switch of tabs. The re-render that follows detaches the six
  monitoring listeners and the two network listeners and clears the heartbeat; the battery
  effect returns no cleanup, so its two listeners stay. A later change of the level to 10
  percent still records a \<open>battery-low\<close> violation and reports it. The same two listeners
  survive an unmount.
\<close>

theorem battery_listener_survives_teardown:
  "\<not> isSecureMode (step (VisibilityChanged True) exampleSecure) \<and>
   intervals (step (VisibilityChanged True) exampleSecure) = [] \<and>
   listeners (step (VisibilityChanged True) exampleSecure) = batteryListeners 4 \<and>
   violations (step (LevelChanged (10 / 100)) (step (VisibilityChanged True) exampleSecure)) =
     violations (step (VisibilityChanged True) exampleSecure) @
       [violation ''battery-low'' 0 Warning ''Battery level low: 10%''] \<and>
   last (effects (step (LevelChanged (10 / 100)) (step (VisibilityChanged True) exampleSecure))) =
     OnSecurityViolation ''Battery level low: 10%'' Warning \<and>
   listeners (unmount exampleSecure) = batteryListeners 4"
  by code_simp

text \<open>
  C2. One violation: \<open>addViolation\<close> reports it and, exactly when its severity is critical,
  goes on with the whole termination (the alert, the effects of the cleanup, the exit
  signal) and ends secure mode; a warning leaves secure mode as it was. Whatever events
  reach a freshly mounted component, the termination has run if and only if the log holds
  a critical violation. And from any state on the verification or the exam screen in
  secure mode, every run of events stays on these screens, is still in secure mode at its
  end exactly when it has recorded no critical violation, has run no termination exactly
  in that case, and has sent as many exit signals as it has run terminations.
\<close>

theorem termination_iff_critical_violation:
  "effects (addViolation c ty sev d s) =
     effects s @ [OnSecurityViolation d sev] @
       (if sev = Critical then terminationEffects c d s else []) \<and>
   isSecureMode (addViolation c ty sev d s) = (sev \<noteq> Critical \<and> isSecureMode s) \<and>
   (0 < terminations (run evs (mount onl fs bat ch lv))) =
     (0 < criticals (run evs (mount onl fs bat ch lv))) \<and>
   ((currentStep s = Verification \<or> currentStep s = Exam) \<and> isSecureMode s \<longrightarrow>
      (currentStep (run evs s) = Verification \<or> currentStep (run evs s) = Exam) \<and>
      isSecureMode (run evs s) = (criticals (run evs s) = criticals s) \<and>
      (terminations (run evs s) = terminations s) = (criticals (run evs s) = criticals s) \<and>
      exitSignals (run evs s) + terminations s = exitSignals s + terminations (run evs s))"
proof -
  have a: "follows (mount onl fs bat ch lv) (run evs (mount onl fs bat ch lv))"
    by (rule follows_run)
  have b: "follows s (run evs s)" by (rule follows_run)
  from a have "(0 < terminations (run evs (mount onl fs bat ch lv))) =
     (0 < criticals (run evs (mount onl fs bat ch lv)))"
    by (simp add: follows_def tracks_def mount_counts)
  moreover from b have "(currentStep s = Verification \<or> currentStep s = Exam) \<and> isSecureMode s \<longrightarrow>
      (currentStep (run evs s) = Verification \<or> currentStep (run evs s) = Exam) \<and>
      isSecureMode (run evs s) = (criticals (run evs s) = criticals s) \<and>
      (terminations (run evs s) = terminations s) = (criticals (run evs s) = criticals s) \<and>
      exitSignals (run evs s) + terminations s = exitSignals s + terminations (run evs s)"
    unfolding follows_def tracks_def secured_def by auto
  ultimately show ?thesis
    by (simp add: addViolation_effects addViolation_isSecureMode)
qed

theorem termination_iff_critical_violation_witness:
  "currentStep exampleSecure = Verification \<and> isSecureMode exampleSecure \<and>
   criticals (run [WindowBlurred, KeyPressed ctrlShiftI, MouseLeft] exampleSecure) = criticals exampleSecure \<and>
   length (violations (run [WindowBlurred, KeyPressed ctrlShiftI, MouseLeft] exampleSecure)) =
     length (violations exampleSecure) + 3 \<and>
   isSecureMode (run [WindowBlurred, KeyPressed ctrlShiftI, MouseLeft] exampleSecure) \<and>
   exitSignals (run [WindowBlurred, KeyPressed ctrlShiftI, MouseLeft] exampleSecure) = exitSignals exampleSecure \<and>
   criticals (run [WindowBlurred, VisibilityChanged True] exampleSecure) = criticals exampleSecure + 1 \<and>
   terminations (run [WindowBlurred, VisibilityChanged True] exampleSecure) = terminations exampleSecure + 1 \<and>
   \<not> isSecureMode (run [WindowBlurred, VisibilityChanged True] exampleSecure) \<and>
   exitSignals (run [WindowBlurred, VisibilityChanged True] exampleSecure) = exitSignals exampleSecure + 1 \<and>
   0 < criticals (run [AgreementToggled True, EnterSecureModeClicked exampleEnv, VisibilityChanged True]
                    (mount True True True False (15 / 100))) \<and>
   0 < terminations (run [AgreementToggled True, EnterSecureModeClicked exampleEnv, VisibilityChanged True]
                    (mount True True True False (15 / 100)))"
proof -
  have h1: "currentStep exampleSecure = Verification \<and> isSecureMode exampleSecure" by code_simp
  have h2: "criticals (run [WindowBlurred, KeyPressed ctrlShiftI, MouseLeft] exampleSecure) = criticals exampleSecure"
    by code_simp
  have h3: "length (violations (run [WindowBlurred, KeyPressed ctrlShiftI, MouseLeft] exampleSecure)) =
     length (violations exampleSecure) + 3" by code_simp
  have h4: "0 < criticals (run [AgreementToggled True, EnterSecureModeClicked exampleEnv, VisibilityChanged True]
                    (mount True True True False (15 / 100)))" by code_simp
  have h5: "criticals (run [WindowBlurred, VisibilityChanged True] exampleSecure) = criticals exampleSecure + 1"
    by code_simp
  have h6: "terminations (run [WindowBlurred, VisibilityChanged True] exampleSecure) = terminations exampleSecure + 1"
    by code_simp
  have n: "(currentStep exampleSecure = Verification \<or> currentStep exampleSecure = Exam) \<and>
      isSecureMode exampleSecure" using h1 by simp
  from n termination_iff_critical_violation [of firstRender "[]" Warning "[]" exampleSecure
        "[WindowBlurred, KeyPressed ctrlShiftI, MouseLeft]" True True True False "15 / 100"]
  have q: "isSecureMode (run [WindowBlurred, KeyPressed ctrlShiftI, MouseLeft] exampleSecure) =
        (criticals (run [WindowBlurred, KeyPressed ctrlShiftI, MouseLeft] exampleSecure) = criticals exampleSecure)"
    "(terminations (run [WindowBlurred, KeyPressed ctrlShiftI, MouseLeft] exampleSecure) = terminations exampleSecure) =
        (criticals (run [WindowBlurred, KeyPressed ctrlShiftI, MouseLeft] exampleSecure) = criticals exampleSecure)"
    "exitSignals (run [WindowBlurred, KeyPressed ctrlShiftI, MouseLeft] exampleSecure) + terminations exampleSecure =
        exitSignals exampleSecure + terminations (run [WindowBlurred, KeyPressed ctrlShiftI, MouseLeft] exampleSecure)"
    by blast+
  from n termination_iff_critical_violation [of firstRender "[]" Warning "[]" exampleSecure
        "[WindowBlurred, VisibilityChanged True]" True True True False "15 / 100"]
  have r: "isSecureMode (run [WindowBlurred, VisibilityChanged True] exampleSecure) =
        (criticals (run [WindowBlurred, VisibilityChanged True] exampleSecure) = criticals exampleSecure)"
    "exitSignals (run [WindowBlurred, VisibilityChanged True] exampleSecure) + terminations exampleSecure =
        exitSignals exampleSecure + terminations (run [WindowBlurred, VisibilityChanged True] exampleSecure)"
    by blast+
  from termination_iff_critical_violation [of firstRender "[]" Warning "[]" exampleSecure
        "[AgreementToggled True, EnterSecureModeClicked exampleEnv, VisibilityChanged True]"
        True True True False "15 / 100"]
  have t: "(0 < terminations (run [AgreementToggled True, EnterSecureModeClicked exampleEnv, VisibilityChanged True]
                    (mount True True True False (15 / 100)))) =
     (0 < criticals (run [AgreementToggled True, EnterSecureModeClicked exampleEnv, VisibilityChanged True]
                    (mount True True True False (15 / 100))))"
    by blast
  from q h2 have q': "isSecureMode (run [WindowBlurred, KeyPressed ctrlShiftI, MouseLeft] exampleSecure)"
    "exitSignals (run [WindowBlurred, KeyPressed ctrlShiftI, MouseLeft] exampleSecure) = exitSignals exampleSecure"
    by simp_all
  from r h5 h6 have r': "\<not> isSecureMode (run [WindowBlurred, VisibilityChanged True] exampleSecure)"
    "exitSignals (run [WindowBlurred, VisibilityChanged True] exampleSecure) = exitSignals exampleSecure + 1"
    by simp_all
  show ?thesis using h1 h2 h3 h4 h5 h6 q' r' t by simp
qed

text \<open>
  C10. A setup that reaches the verification step has set \<open>noOtherApps\<close> to true, whatever
  the browser answered. No event ever sets the flag back to false. And the flag is never
  read: two states that differ in it only are taken by every event to states that differ
  in it at most, with the same log of violations and the same side effects, and the
  start button is disabled in the one exactly when it is in the other.
\<close>

theorem noOtherApps_set_and_never_read:
  "(agreementAccepted s \<and> currentStep (startSecureSetup env s) = Verification \<longrightarrow>
      noOtherApps (systemChecks (startSecureSetup env s))) \<and>
   (noOtherApps (systemChecks s) \<longrightarrow> noOtherApps (systemChecks (step ev s))) \<and>
   setNoOtherApps False (step ev (setNoOtherApps b s)) = setNoOtherApps False (step ev s) \<and>
   violations (step ev (setNoOtherApps b s)) = violations (step ev s) \<and>
   effects (step ev (setNoOtherApps b s)) = effects (step ev s) \<and>
   startExamDisabled (setNoOtherApps b s) = startExamDisabled s"
proof -
  have a: "agreementAccepted s \<and> currentStep (startSecureSetup env s) = Verification \<longrightarrow>
      noOtherApps (systemChecks (startSecureSetup env s))"
    by (cases "getUserMedia env"; cases "getDisplayMedia env")
      (auto simp add: startSecureSetup_def setupCamera_def cameraDenied_def enterFullscreen_def
        screenShareStep_def setupScreenShare_def Let_def setupFailed_def setupFinally_def
        finalChecks_def split: if_splits)
  have b: "noOtherApps (systemChecks s) \<longrightarrow> noOtherApps (systemChecks (step ev s))"
  proof
    assume h: "noOtherApps (systemChecks s)"
    then have "setNoOtherApps True s = s" by (simp add: setNoOtherApps_id)
    with setNoOtherApps_step [of ev True s]
    have "step ev s = setNoOtherApps True (step ev s) \<or> noOtherApps (systemChecks (step ev s))"
      by auto
    then show "noOtherApps (systemChecks (step ev s))"
    proof
      assume "step ev s = setNoOtherApps True (step ev s)"
      then have "noOtherApps (systemChecks (step ev s)) =
          noOtherApps (systemChecks (setNoOtherApps True (step ev s)))" by simp
      then show ?thesis by simp
    qed
  qed
  have c: "setNoOtherApps False (step ev (setNoOtherApps b s)) = setNoOtherApps False (step ev s)"
    using setNoOtherApps_step [of ev b s] by auto
  from c have "violations (setNoOtherApps False (step ev (setNoOtherApps b s))) =
      violations (setNoOtherApps False (step ev s))" by simp
  then have d: "violations (step ev (setNoOtherApps b s)) = violations (step ev s)" by simp
  from c have "effects (setNoOtherApps False (step ev (setNoOtherApps b s))) =
      effects (setNoOtherApps False (step ev s))" by simp
  then have e: "effects (step ev (setNoOtherApps b s)) = effects (step ev s)" by simp
  show ?thesis using a b c d e by simp
qed

theorem noOtherApps_set_and_never_read_witness:
  "agreementAccepted exampleAccepted \<and>
   currentStep (startSecureSetup exampleEnv exampleAccepted) = Verification \<and>
   noOtherApps (systemChecks (startSecureSetup exampleEnv exampleAccepted)) \<and>
   noOtherApps (systemChecks exampleSecure) \<and>
   noOtherApps (systemChecks (step (VisibilityChanged True) exampleSecure)) \<and>
   violations (step (VisibilityChanged True) (setNoOtherApps False exampleSecure)) =
     violations (step (VisibilityChanged True) exampleSecure)"
proof -
  have h1: "agreementAccepted exampleAccepted \<and>
   currentStep (startSecureSetup exampleEnv exampleAccepted) = Verification" by code_simp
  have h2: "noOtherApps (systemChecks exampleSecure)" by code_simp
  show ?thesis
    using h1 h2
      noOtherApps_set_and_never_read [of exampleAccepted exampleEnv "VisibilityChanged True" False]
      noOtherApps_set_and_never_read [of exampleSecure exampleEnv "VisibilityChanged True" False]
    by blast
qed

end
